theory Spec2Isabelle
  imports Main "HOL-Library.Word" "HOL-Library.Sublist"
begin

section \<open>JavaScript values used by the dashboard\<close>

text \<open>
  A JavaScript string is a sequence of UTF-16 code units; \<open>length\<close>, \<open>slice\<close> and the
  regular expression of \<open>esc\<close> all work on code units, so a string is a list of 16-bit
  words. \<open>str\<close> turns an ASCII literal of the source into such a list. The Korean labels
  of the page are given by their code units.
\<close>

type_synonym jschar = "16 word"
type_synonym jsstring = "jschar list"

definition str :: "string \<Rightarrow> jsstring" where
  "str s = map of_char s"

text \<open>
  A property of a parsed JSON object is missing (\<open>undefined\<close>), \<open>null\<close>, or has a
  value. The data model of the page types every scalar field as an optional string, \<open>meta.mock\<close>
  as an optional boolean and \<open>changes\<close>, \<open>errors\<close>, \<open>refs\<close>, \<open>records\<close>, \<open>items\<close> as optional arrays.
\<close>

datatype 'a nullable = Undefined | Null | Val 'a

text \<open>\<^verbatim>\<open>s || d\<close> for a string: the empty string is falsy, as are \<open>undefined\<close> and \<open>null\<close>.\<close>

definition truthy_str :: "jsstring nullable \<Rightarrow> bool" where
  "truthy_str x = (case x of Val s \<Rightarrow> s \<noteq> [] | _ \<Rightarrow> False)"

definition or_str :: "jsstring nullable \<Rightarrow> jsstring \<Rightarrow> jsstring" where
  "or_str x d = (case x of Val s \<Rightarrow> (if s \<noteq> [] then s else d) | _ \<Rightarrow> d)"

text \<open>\<^verbatim>\<open>xs || []\<close> for an array: every array, also the empty one, is truthy.\<close>

definition or_arr :: "'a list nullable \<Rightarrow> 'a list \<Rightarrow> 'a list" where
  "or_arr x d = (case x of Val xs \<Rightarrow> xs | _ \<Rightarrow> d)"

text \<open>\<^verbatim>\<open>s ?? d\<close>: only \<open>undefined\<close> and \<open>null\<close> give the default.\<close>

definition nullish_or :: "'a nullable \<Rightarrow> 'a \<Rightarrow> 'a" where
  "nullish_or x d = (case x of Val v \<Rightarrow> v | _ \<Rightarrow> d)"

text \<open>A value interpolated into a template literal without any guard: \<^verbatim>\<open>`${x}`\<close>.\<close>

definition interpolate :: "jsstring nullable \<Rightarrow> jsstring" where
  "interpolate x = (case x of Undefined \<Rightarrow> str ''undefined'' | Null \<Rightarrow> str ''null'' | Val s \<Rightarrow> s)"

text \<open>\<^verbatim>\<open>`${n}`\<close> for a non-negative integer such as \<open>xs.length\<close> or \<open>r.status\<close>: its decimal digits.\<close>

fun show_nat :: "nat \<Rightarrow> jsstring" where
  "show_nat n = (if n < 10 then [0x30 + of_nat n] else show_nat (n div 10) @ [0x30 + of_nat (n mod 10)])"

declare show_nat.simps [simp del]

text \<open>\<^verbatim>\<open>xs.join(sep)\<close>\<close>

fun join :: "jsstring \<Rightarrow> jsstring list \<Rightarrow> jsstring" where
  "join sep [] = []"
| "join sep [x] = x"
| "join sep (x # y # ys) = x @ sep @ join sep (y # ys)"

text \<open>
  \<^verbatim>\<open>s.trim()\<close> removes white space and line terminators (ECMAScript WhiteSpace and
  LineTerminator) from both ends.
\<close>

definition is_space :: "jschar \<Rightarrow> bool" where
  "is_space c = (c = 0x09 \<or> c = 0x0A \<or> c = 0x0B \<or> c = 0x0C \<or> c = 0x0D \<or> c = 0x20 \<or> c = 0xA0
     \<or> c = 0x1680 \<or> (0x2000 \<le> c \<and> c \<le> 0x200A) \<or> c = 0x2028 \<or> c = 0x2029 \<or> c = 0x202F
     \<or> c = 0x205F \<or> c = 0x3000 \<or> c = 0xFEFF)"

definition trim :: "jsstring \<Rightarrow> jsstring" where
  "trim s = rev (dropWhile is_space (rev (dropWhile is_space s)))"

text \<open>
  \<^verbatim>\<open>s.toLowerCase()\<close> on a header value. The host hands header values over as byte
  strings (code units up to 0xFF); on those, lower-casing maps A-Z and the Latin-1 capitals
  to their small letters and leaves the rest.
\<close>

definition lower_char :: "jschar \<Rightarrow> jschar" where
  "lower_char c = (if (0x41 \<le> c \<and> c \<le> 0x5A) \<or> (0xC0 \<le> c \<and> c \<le> 0xDE \<and> c \<noteq> 0xD7) then c + 0x20 else c)"

definition toLowerCase :: "jsstring \<Rightarrow> jsstring" where
  "toLowerCase s = map lower_char s"

text \<open>\<^verbatim>\<open>s.includes(t)\<close>\<close>

definition includes_str :: "jsstring \<Rightarrow> jsstring \<Rightarrow> bool" where
  "includes_str s t = sublist t s"

section \<open>Errors\<close>

text \<open>
  \<open>fetchJson\<close> throws plain \<^verbatim>\<open>new Error(message)\<close>; \<^verbatim>\<open>JSON.parse\<close> throws a
  SyntaxError; the host rejects a failed \<open>fetch\<close> or body read with a TypeError, and reading a
  property of \<open>null\<close> throws a TypeError too. \<open>String(err)\<close> is
  \<^verbatim>\<open>Error.prototype.toString\<close>: the name, then the message after a colon when there is
  one.
\<close>

datatype error = Error jsstring | SyntaxError jsstring | TypeError jsstring

definition named :: "jsstring \<Rightarrow> jsstring \<Rightarrow> jsstring" where
  "named n m = (if m = [] then n else n @ str '': '' @ m)"

fun String :: "error \<Rightarrow> jsstring" where
  "String (Error m) = named (str ''Error'') m"
| "String (SyntaxError m) = named (str ''SyntaxError'') m"
| "String (TypeError m) = named (str ''TypeError'') m"

section \<open>The resource fetcher\<close>

text \<open>
  What the host's \<open>fetch\<close> resolves to: \<open>r.ok\<close>, \<open>r.status\<close>, the value of
  \<^verbatim>\<open>r.headers.get('content-type')\<close> (\<open>null\<close> when the header is missing) and the outcome
  of \<^verbatim>\<open>await r.text()\<close>.
\<close>

record response =
  r_ok :: bool
  r_status :: nat
  r_content_type :: "jsstring nullable"
  r_text :: "error + jsstring"

text \<open>
  \<^verbatim>\<open>
  async function fetchJson(path){
    const r = await fetch(path, { cache: 'no-store' });
    if(!r.ok) throw new Error(`HTTP ${r.status} ${path}`);
    const ct = (r.headers.get('content-type')||'').toLowerCase();
    const text = await r.text();
    if(!text.trim()) throw new Error(`EMPTY ${path}`);
    if(!ct.includes('json')){
      try { return JSON.parse(text); }
      catch { throw new Error(`NOT_JSON ${path} ct=${ct} head=${text.slice(0,120)}`); }
    }
    return JSON.parse(text);
  }
  \<close>
  The host's \<open>fetch\<close> and \<^verbatim>\<open>JSON.parse\<close> are parameters: \<open>fetch path\<close> is the response or
  the error the request is rejected with, \<open>parse text\<close> is the decoded value or the message
  of the SyntaxError.
\<close>

definition fetchJson ::
  "(jsstring \<Rightarrow> error + response) \<Rightarrow> (jsstring \<Rightarrow> jsstring + 'j) \<Rightarrow> jsstring \<Rightarrow> error + 'j" where
  "fetchJson fetch parse path =
    (case fetch path of
       Inl e \<Rightarrow> Inl e
     | Inr r \<Rightarrow>
         if \<not> r_ok r then Inl (Error (str ''HTTP '' @ show_nat (r_status r) @ str '' '' @ path))
         else
           let ct = toLowerCase (or_str (r_content_type r) []) in
           (case r_text r of
              Inl e \<Rightarrow> Inl e
            | Inr text \<Rightarrow>
                if trim text = [] then Inl (Error (str ''EMPTY '' @ path))
                else if \<not> includes_str ct (str ''json'') then
                  (case parse text of
                     Inr v \<Rightarrow> Inr v
                   | Inl m \<Rightarrow> Inl (Error (str ''NOT_JSON '' @ path @ str '' ct='' @ ct
                                           @ str '' head='' @ take 120 text)))
                else
                  (case parse text of
                     Inr v \<Rightarrow> Inr v
                   | Inl m \<Rightarrow> Inl (SyntaxError m))))"

section \<open>The data model\<close>

record reference =
  url :: "jsstring nullable"

record change =
  c_code :: "jsstring nullable"
  c_title :: "jsstring nullable"
  c_noticeNo :: "jsstring nullable"
  c_announceDate :: "jsstring nullable"
  c_effectiveDate :: "jsstring nullable"
  c_reason :: "jsstring nullable"
  c_refs :: "reference list nullable"

record errorEntry =
  e_code :: "jsstring nullable"
  e_title :: "jsstring nullable"
  e_where :: "jsstring nullable"
  e_kind :: "jsstring nullable"
  e_status :: "jsstring nullable"
  e_contentType :: "jsstring nullable"
  e_head :: "jsstring nullable"

record item =
  i_code :: "jsstring nullable"
  i_title :: "jsstring nullable"
  i_query :: "jsstring nullable"

record metaInfo =
  mock :: "bool nullable"

record runRecord =
  rec_date :: "jsstring nullable"
  rec_result :: "jsstring nullable"
  rec_summary :: "jsstring nullable"
  rec_meta :: "metaInfo nullable"
  rec_changes :: "change list nullable"
  rec_errors :: "errorEntry list nullable"

text \<open>
  A decoded resource: \<open>null\<close>, or a value whose properties \<open>records\<close> and \<open>items\<close> are read
  (both are missing on a value that is not an object). An element of \<open>records\<close> may itself
  be \<open>null\<close>.
\<close>

record resource =
  d_records :: "runRecord nullable list nullable"
  d_items :: "item list nullable"

datatype parsed = PNull | PObj resource

section \<open>Labels of the page\<close>

definition ko_original :: jsstring where "ko_original = [0xC6D0, 0xBB38]"
definition ko_changes_detail :: jsstring where
  "ko_changes_detail = [0xBCC0, 0xACBD, 0x20, 0xAC10, 0xC9C0, 0x20, 0xC0C1, 0xC138]"
definition ko_code :: jsstring where "ko_code = [0xCF54, 0xB4DC]"
definition ko_title :: jsstring where "ko_title = [0xC81C, 0xBA85]"
definition ko_notice_no :: jsstring where "ko_notice_no = [0xBC1C, 0xB839, 0xBC88, 0xD638]"
definition ko_announce_date :: jsstring where "ko_announce_date = [0xBC1C, 0xB839, 0xC77C]"
definition ko_effective_date :: jsstring where "ko_effective_date = [0xC2DC, 0xD589, 0xC77C]"
definition ko_reason :: jsstring where "ko_reason = [0xC0AC, 0xC720]"
definition ko_no_changes :: jsstring where "ko_no_changes = [0xBCC0, 0xACBD, 0x20, 0xC5C6, 0xC74C]"
definition ko_errors_diag :: jsstring where "ko_errors_diag = [0xC624, 0xB958, 0x2F, 0xC9C4, 0xB2E8]"
definition ko_where :: jsstring where "ko_where = [0xAD6C, 0xAC04]"
definition ko_kind :: jsstring where "ko_kind = [0xC885, 0xB958]"
definition ko_no_errors :: jsstring where "ko_no_errors = [0xC624, 0xB958, 0x20, 0xC5C6, 0xC74C]"
definition ko_no_items :: jsstring where "ko_no_items = [0xD56D, 0xBAA9, 0x20, 0xC5C6, 0xC74C]"
definition ko_query :: jsstring where "ko_query = [0xAC80, 0xC0C9, 0xC5B4]"
definition ko_no_data :: jsstring where "ko_no_data = [0xB370, 0xC774, 0xD130, 0x20, 0xC5C6, 0xC74C]"
definition ko_load_failed :: jsstring where "ko_load_failed = [0xB85C, 0xB529, 0x20, 0xC2E4, 0xD328]"
definition ko_last_run :: jsstring where "ko_last_run = [0xCD5C, 0xADFC, 0x20, 0xC2E4, 0xD589]"
definition ellipsis :: jsstring where "ellipsis = [0x2026]"

definition msg_no_records :: jsstring where
  "msg_no_records = str ''data_test.json'' @ [0xC5D0] @ str '' records''
     @ [0xAC00, 0x20, 0xC5C6, 0xC2B5, 0xB2C8, 0xB2E4] @ str ''. Actions(Test Check)''
     @ [0xB97C, 0x20, 0x31, 0xD68C, 0x20, 0xC2E4, 0xD589, 0xD558, 0xC138, 0xC694] @ str ''.''"

section \<open>Escaping\<close>

text \<open>
  \<^verbatim>\<open>
  function esc(s){
    return (s??'').toString().replace(/[&<>"']/g,
      m => ({'&':'&amp;','<':'&lt;','>':'&gt;','"':'&quot;',"'":'&#39;'}[m]));
  }
  \<close>
  The global replace rewrites every code unit of the class on its own.
\<close>

definition esc_char :: "jschar \<Rightarrow> jsstring" where
  "esc_char m =
     (if m = 0x26 then str ''&amp;''
      else if m = 0x3C then str ''&lt;''
      else if m = 0x3E then str ''&gt;''
      else if m = 0x22 then str ''&quot;''
      else if m = 0x27 then str ''&#39;''
      else [m])"

definition esc :: "jsstring nullable \<Rightarrow> jsstring" where
  "esc s = concat (map esc_char (nullish_or s []))"

section \<open>The status renderer\<close>

text \<open>
  The arrow function mapped over \<open>c.refs\<close>:
  \<^verbatim>\<open>x => x.url ? `<a href="${esc(x.url)}" target="_blank" rel="noreferrer">...</a>` : ''\<close>
\<close>

definition refLink :: "reference \<Rightarrow> jsstring" where
  \<open>refLink x =
     (if truthy_str (url x)
      then str ''<a href="'' @ esc (url x) @ str ''" target="_blank" rel="noreferrer">''
           @ ko_original @ str ''</a>''
      else [])\<close>

text \<open>The arrow function mapped over \<open>changes\<close> (one table row).\<close>

definition rowChange :: "change \<Rightarrow> jsstring" where
  \<open>rowChange c =
     str ''\<newline>    <tr>\<newline>      <td>'' @ esc (c_code c)
     @ str ''</td>\<newline>      <td>'' @ esc (c_title c)
     @ str ''</td>\<newline>      <td>'' @ esc (Val (or_str (c_noticeNo c) []))
     @ str ''</td>\<newline>      <td>'' @ esc (Val (or_str (c_announceDate c) []))
     @ str ''</td>\<newline>      <td>'' @ esc (Val (or_str (c_effectiveDate c) []))
     @ str ''</td>\<newline>      <td>'' @ esc (Val (or_str (c_reason c) []))
     @ str ''</td>\<newline>      <td>'' @ join (str '' '') (map refLink (or_arr (c_refs c) []))
     @ str ''</td>\<newline>    </tr>\<newline>  ''\<close>

text \<open>
  The arrow function mapped over \<open>errors\<close>. The last cell is
  \<^verbatim>\<open><td title="${esc(e.head||'')}">${esc((e.head||'').slice(0,60))}${(e.head||'').length>60?'...':''}</td>\<close>
  with the one-character horizontal ellipsis U+2026.
\<close>

definition rowError :: "errorEntry \<Rightarrow> jsstring" where
  \<open>rowError e =
     str ''\<newline>    <tr>\<newline>      <td>'' @ esc (Val (or_str (e_code e) []))
     @ str ''</td>\<newline>      <td>'' @ esc (Val (or_str (e_title e) []))
     @ str ''</td>\<newline>      <td>'' @ esc (Val (or_str (e_where e) []))
     @ str ''</td>\<newline>      <td>'' @ esc (Val (or_str (e_kind e) []))
     @ str ''</td>\<newline>      <td>'' @ esc (Val (or_str (e_status e) []))
     @ str ''</td>\<newline>      <td>'' @ esc (Val (or_str (e_contentType e) []))
     @ str ''</td>\<newline>      <td title="'' @ esc (Val (or_str (e_head e) []))
     @ str ''">'' @ esc (Val (take 60 (or_str (e_head e) [])))
     @ (if length (or_str (e_head e) []) > 60 then ellipsis else [])
     @ str ''</td>\<newline>    </tr>\<newline>  ''\<close>

text \<open>
  The two \<open>details\<close> elements of the template of \<open>renderLog\<close>, from
  \<^verbatim>\<open><details\<close> to \<^verbatim>\<open></details>\<close>; the first argument is
  \<open>changes\<close> (\<open>errors\<close>), the second \<open>rowsChanges\<close> (\<open>rowsErrors\<close>).
\<close>

definition detailsChanges :: "change list \<Rightarrow> jsstring \<Rightarrow> jsstring" where
  \<open>detailsChanges changes rowsChanges =
     str ''<details style="margin-top:10px" ''
     @ (if length changes \<noteq> 0 then str ''open'' else [])
     @ str ''>\<newline>        <summary>'' @ ko_changes_detail @ str ''</summary>\<newline>        ''
     @ (if length changes \<noteq> 0
        then str ''\<newline>          <table>\<newline>            <thead><tr>\<newline>              <th>''
             @ ko_code @ str ''</th><th>'' @ ko_title @ str ''</th><th>'' @ ko_notice_no
             @ str ''</th><th>'' @ ko_announce_date @ str ''</th><th>'' @ ko_effective_date
             @ str ''</th><th>'' @ ko_reason @ str ''</th><th>'' @ ko_original
             @ str ''</th>\<newline>            </tr></thead>\<newline>            <tbody>''
             @ rowsChanges
             @ str ''</tbody>\<newline>          </table>\<newline>        ''
        else str ''<div class="small" style="margin-top:6px">'' @ ko_no_changes @ str ''</div>'')
     @ str ''\<newline>      </details>''\<close>

definition detailsErrors :: "errorEntry list \<Rightarrow> jsstring \<Rightarrow> jsstring" where
  \<open>detailsErrors errors rowsErrors =
     str ''<details style="margin-top:10px" ''
     @ (if length errors \<noteq> 0 then str ''open'' else [])
     @ str ''>\<newline>        <summary>'' @ ko_errors_diag @ str ''</summary>\<newline>        ''
     @ (if length errors \<noteq> 0
        then str ''\<newline>          <table>\<newline>            <thead><tr>\<newline>              <th>''
             @ ko_code @ str ''</th><th>'' @ ko_title @ str ''</th><th>'' @ ko_where
             @ str ''</th><th>'' @ ko_kind
             @ str ''</th><th>HTTP</th><th>Content-Type</th><th>HEAD</th>\<newline>            </tr></thead>\<newline>            <tbody>''
             @ rowsErrors
             @ str ''</tbody>\<newline>          </table>\<newline>        ''
        else str ''<div class="small" style="margin-top:6px">'' @ ko_no_errors @ str ''</div>'')
     @ str ''\<newline>      </details>''\<close>

text \<open>
  \<^verbatim>\<open>
  function renderLog(rec){
    const changes = rec.changes || [];
    const errors = rec.errors || [];
    const rowsChanges = changes.map(c => `...`).join('');
    const rowsErrors = errors.map(e => `...`).join('');
    return `
      <div style="margin-top:10px">
        <div class="row">
          <span class="pill">${esc(rec.date)}</span>
          <span class="pill">${esc(rec.result)}</span>
          <span class="pill">changes ${changes.length}</span>
          <span class="pill">errors ${errors.length}</span>
          <span class="pill">mock ${(rec.meta&&rec.meta.mock)?'true':'false'}</span>
        </div>
        <div class="small" style="margin-top:6px">${esc(rec.summary||'')}</div>

        <details style="margin-top:10px" ${changes.length? 'open':''}> ... </details>

        <details style="margin-top:10px" ${errors.length? 'open':''}> ... </details>
      </div>
    `;
  }
  \<close>
  \<^verbatim>\<open>rec.meta && rec.meta.mock\<close> is truthy when \<open>meta\<close> is an object whose \<open>mock\<close> is \<open>true\<close>.
\<close>

definition isMock :: "runRecord \<Rightarrow> bool" where
  "isMock rec = (case rec_meta rec of Val m \<Rightarrow> (case mock m of Val b \<Rightarrow> b | _ \<Rightarrow> False) | _ \<Rightarrow> False)"

definition renderLog :: "runRecord \<Rightarrow> jsstring" where
  \<open>renderLog rec =
     (let changes = or_arr (rec_changes rec) [];
          errors = or_arr (rec_errors rec) [];
          rowsChanges = join [] (map rowChange changes);
          rowsErrors = join [] (map rowError errors)
      in str ''\<newline>    <div style="margin-top:10px">\<newline>      <div class="row">\<newline>        <span class="pill">''
         @ esc (rec_date rec)
         @ str ''</span>\<newline>        <span class="pill">'' @ esc (rec_result rec)
         @ str ''</span>\<newline>        <span class="pill">changes '' @ show_nat (length changes)
         @ str ''</span>\<newline>        <span class="pill">errors '' @ show_nat (length errors)
         @ str ''</span>\<newline>        <span class="pill">mock ''
         @ (if isMock rec then str ''true'' else str ''false'')
         @ str ''</span>\<newline>      </div>\<newline>      <div class="small" style="margin-top:6px">''
         @ esc (Val (or_str (rec_summary rec) []))
         @ str ''</div>\<newline>\<newline>      ''
         @ detailsChanges changes rowsChanges
         @ str ''\<newline>\<newline>      ''
         @ detailsErrors errors rowsErrors
         @ str ''\<newline>    </div>\<newline>  '')\<close>

section \<open>The list renderer\<close>

text \<open>
  \<^verbatim>\<open>
  function renderList(items){
    if(!items || !items.length) return '<div class="small">...</div>';
    return `
      <table>
        <thead><tr><th>...</th><th>...</th><th>...</th></tr></thead>
        <tbody>
          ${items.map(it=>`<tr><td>${esc(it.code)}</td><td>${esc(it.title)}</td><td class="mono">${esc(it.query||'')}</td></tr>`).join('')}
        </tbody>
      </table>
    `;
  }
  \<close>
\<close>

definition rowItem :: "item \<Rightarrow> jsstring" where
  \<open>rowItem it =
     str ''<tr><td>'' @ esc (i_code it) @ str ''</td><td>'' @ esc (i_title it)
     @ str ''</td><td class="mono">'' @ esc (Val (or_str (i_query it) [])) @ str ''</td></tr>''\<close>

definition renderList :: "item list nullable \<Rightarrow> jsstring" where
  \<open>renderList items =
     (if or_arr items [] = []
      then str ''<div class="small">'' @ ko_no_items @ str ''</div>''
      else str ''\<newline>    <table>\<newline>      <thead><tr><th>'' @ ko_code @ str ''</th><th>''
           @ ko_title @ str ''</th><th>'' @ ko_query
           @ str ''</th></tr></thead>\<newline>      <tbody>\<newline>        ''
           @ join [] (map rowItem (or_arr items []))
           @ str ''\<newline>      </tbody>\<newline>    </table>\<newline>  '')\<close>

section \<open>The page and the orchestrator\<close>

text \<open>
  The display surface: the five elements the script looks up by id (their class list and
  text), the \<open>innerHTML\<close> of the three containers, and what was written to the console.
  The elements themselves come from the page's markup, which is given.
\<close>

record element =
  classList :: "jsstring list"
  textContent :: jsstring

record page =
  runPill :: element
  modePill :: element
  changesPill :: element
  errorsPill :: element
  statusText :: element
  logHtml :: jsstring
  nfpcList :: jsstring
  nftcList :: jsstring
  console :: "error list"

text \<open>
  \<^verbatim>\<open>
  function pill(el, type){
    el.classList.remove('ok','warn','bad');
    if(type) el.classList.add(type);
  }
  \<close>
\<close>

definition pill :: "element \<Rightarrow> jsstring \<Rightarrow> element" where
  "pill el ty =
     (let removed = filter (\<lambda>t. t \<noteq> str ''ok'' \<and> t \<noteq> str ''warn'' \<and> t \<noteq> str ''bad'') (classList el)
      in el\<lparr>classList :=
           (if ty \<noteq> [] then (if ty \<in> set removed then removed else removed @ [ty]) else removed)\<rparr>)"

definition path_log :: jsstring where "path_log = str ''../data_test.json''"
definition path_nfpc :: jsstring where "path_nfpc = str ''../standards_nfpc_test.json''"
definition path_nftc :: jsstring where "path_nftc = str ''../standards_nftc_test.json''"

text \<open>
  Reading a property of \<open>null\<close> throws a TypeError; the message is the engine's (here V8's
  wording).
\<close>

definition null_read :: "string \<Rightarrow> error" where
  "null_read prop = TypeError (str ''Cannot read properties of null (reading '' @ [0x27] @ str prop @ [0x27] @ str '')'')"

text \<open>\<^verbatim>\<open>const rec = (data.records && data.records[0]) ? data.records[0] : null;\<close>\<close>

definition firstRecord :: "parsed \<Rightarrow> error + runRecord option" where
  "firstRecord data =
     (case data of
        PNull \<Rightarrow> Inl (null_read ''records'')
      | PObj d \<Rightarrow>
          (case d_records d of
             Val (Val r # _) \<Rightarrow> Inr (Some r)
           | _ \<Rightarrow> Inr None))"

text \<open>\<^verbatim>\<open>nfpc.items\<close>\<close>

definition itemsOf :: "parsed \<Rightarrow> error + item list nullable" where
  "itemsOf data = (case data of PNull \<Rightarrow> Inl (null_read ''items'') | PObj d \<Rightarrow> Inr (d_items d))"

text \<open>
  The branch for a missing record:
  \<^verbatim>\<open>
  pill(runPill,'warn');
  runPill.textContent = '...';
  statusText.textContent = 'data_test.json... records...';
  \<close>
\<close>

definition noData :: "page \<Rightarrow> page" where
  "noData p =
     p\<lparr>runPill := (pill (runPill p) (str ''warn''))\<lparr>textContent := ko_no_data\<rparr>,
       statusText := (statusText p)\<lparr>textContent := msg_no_records\<rparr>\<rparr>"

text \<open>
  The branch for a record:
  \<^verbatim>\<open>
  runPill.textContent = `...: ${rec.date}`;
  const mock = rec.meta && rec.meta.mock;
  modePill.textContent = mock ? 'MODE: MOCK' : 'MODE: LIVE';
  pill(modePill, mock ? 'warn' : 'ok');
  const c = (rec.changes||[]).length;
  const e = (rec.errors||[]).length;
  changesPill.textContent = `CHANGES: ${c}`;
  errorsPill.textContent = `ERRORS: ${e}`;
  pill(changesPill, c ? 'warn' : 'ok');
  pill(errorsPill, e ? 'bad' : 'ok');
  statusText.textContent = rec.summary || '';
  document.getElementById('log').innerHTML = renderLog(rec);
  \<close>
\<close>

definition showRecord :: "runRecord \<Rightarrow> page \<Rightarrow> page" where
  "showRecord rec p =
     (let mock = isMock rec;
          c = length (or_arr (rec_changes rec) []);
          e = length (or_arr (rec_errors rec) [])
      in p\<lparr>runPill := (runPill p)\<lparr>textContent := ko_last_run @ str '': '' @ interpolate (rec_date rec)\<rparr>,
           modePill := pill ((modePill p)\<lparr>textContent := (if mock then str ''MODE: MOCK'' else str ''MODE: LIVE'')\<rparr>)
                            (if mock then str ''warn'' else str ''ok''),
           changesPill := pill ((changesPill p)\<lparr>textContent := str ''CHANGES: '' @ show_nat c\<rparr>)
                               (if c \<noteq> 0 then str ''warn'' else str ''ok''),
           errorsPill := pill ((errorsPill p)\<lparr>textContent := str ''ERRORS: '' @ show_nat e\<rparr>)
                              (if e \<noteq> 0 then str ''bad'' else str ''ok''),
           statusText := (statusText p)\<lparr>textContent := or_str (rec_summary rec) []\<rparr>,
           logHtml := renderLog rec\<rparr>)"

text \<open>
  The handler:
  \<^verbatim>\<open>
  }catch(err){
    pill(runPill,'bad');
    runPill.textContent = '...';
    statusText.textContent = String(err);
    console.error(err);
  }
  \<close>
\<close>

definition onError :: "error \<Rightarrow> page \<Rightarrow> page" where
  "onError err p =
     p\<lparr>runPill := (pill (runPill p) (str ''bad''))\<lparr>textContent := ko_load_failed\<rparr>,
       statusText := (statusText p)\<lparr>textContent := String err\<rparr>,
       console := console p @ [err]\<rparr>"

text \<open>
  The body of the \<open>try\<close> block: the page as it stands when the block is left, and the
  exception it is left with, if any.
  \<^verbatim>\<open>
  const data = await fetchJson('../data_test.json');
  const rec = (data.records && data.records[0]) ? data.records[0] : null;
  if(!rec){ ... }else{ ... }
  const nfpc = await fetchJson('../standards_nfpc_test.json');
  const nftc = await fetchJson('../standards_nftc_test.json');
  document.getElementById('nfpcList').innerHTML = renderList(nfpc.items);
  document.getElementById('nftcList').innerHTML = renderList(nftc.items);
  \<close>
\<close>

definition tryLoad ::
  "(jsstring \<Rightarrow> error + response) \<Rightarrow> (jsstring \<Rightarrow> jsstring + parsed) \<Rightarrow> page \<Rightarrow> page \<times> error option" where
  "tryLoad fetch parse p =
     (case fetchJson fetch parse path_log of
        Inl err \<Rightarrow> (p, Some err)
      | Inr data \<Rightarrow>
          (case firstRecord data of
             Inl err \<Rightarrow> (p, Some err)
           | Inr rec \<Rightarrow>
               let p1 = (case rec of None \<Rightarrow> noData p | Some r \<Rightarrow> showRecord r p) in
               (case fetchJson fetch parse path_nfpc of
                  Inl err \<Rightarrow> (p1, Some err)
                | Inr nfpc \<Rightarrow>
                    (case fetchJson fetch parse path_nftc of
                       Inl err \<Rightarrow> (p1, Some err)
                     | Inr nftc \<Rightarrow>
                         (case itemsOf nfpc of
                            Inl err \<Rightarrow> (p1, Some err)
                          | Inr its1 \<Rightarrow>
                              let p2 = p1\<lparr>nfpcList := renderList its1\<rparr> in
                              (case itemsOf nftc of
                                 Inl err \<Rightarrow> (p2, Some err)
                               | Inr its2 \<Rightarrow> (p2\<lparr>nftcList := renderList its2\<rparr>, None)))))))"

text \<open>The whole script: the \<open>try\<close> block, then the handler when it threw.\<close>

definition main ::
  "(jsstring \<Rightarrow> error + response) \<Rightarrow> (jsstring \<Rightarrow> jsstring + parsed) \<Rightarrow> page \<Rightarrow> page" where
  "main fetch parse p =
     (case tryLoad fetch parse p of
        (p', None) \<Rightarrow> p'
      | (p', Some err) \<Rightarrow> onError err p')"

section \<open>Observations on the rendered output\<close>

text \<open>
  Which of the three state classes \<open>ok\<close>, \<open>warn\<close>, \<open>bad\<close> an element carries: the state
  an indicator shows.
\<close>

definition indicator :: "element \<Rightarrow> jsstring list" where
  "indicator el = filter (\<lambda>t. t = str ''ok'' \<or> t = str ''warn'' \<or> t = str ''bad'') (classList el)"

text \<open>The two \<open>details\<close> elements as \<open>renderLog\<close> fills them for a record.\<close>

definition changesSection :: "runRecord \<Rightarrow> jsstring" where
  "changesSection rec =
     (let changes = or_arr (rec_changes rec) []
      in detailsChanges changes (join [] (map rowChange changes)))"

definition errorsSection :: "runRecord \<Rightarrow> jsstring" where
  "errorsSection rec =
     (let errors = or_arr (rec_errors rec) []
      in detailsErrors errors (join [] (map rowError errors)))"

text \<open>A field that is missing or \<open>null\<close>, replaced by the empty string.\<close>

definition present :: "jsstring nullable \<Rightarrow> jsstring nullable" where
  "present x = Val (nullish_or x [])"

definition present_change :: "change \<Rightarrow> change" where
  "present_change c =
     c\<lparr>c_code := present (c_code c), c_title := present (c_title c),
       c_noticeNo := present (c_noticeNo c), c_announceDate := present (c_announceDate c),
       c_effectiveDate := present (c_effectiveDate c), c_reason := present (c_reason c),
       c_refs := Val (or_arr (c_refs c) [])\<rparr>"

definition present_error :: "errorEntry \<Rightarrow> errorEntry" where
  "present_error e =
     e\<lparr>e_code := present (e_code e), e_title := present (e_title e), e_where := present (e_where e),
       e_kind := present (e_kind e), e_status := present (e_status e),
       e_contentType := present (e_contentType e), e_head := present (e_head e)\<rparr>"

definition present_item :: "item \<Rightarrow> item" where
  "present_item it =
     it\<lparr>i_code := present (i_code it), i_title := present (i_title it), i_query := present (i_query it)\<rparr>"

text \<open>
  The characters that delimit markup, and the same data with each of the five characters
  that \<open>esc\<close> rewrites replaced by an underscore: data that cannot add markup, of the same
  shape and the same lengths.
\<close>

definition markup :: "jschar \<Rightarrow> bool" where
  "markup c = (c = 0x3C \<or> c = 0x3E \<or> c = 0x22 \<or> c = 0x27)"

definition defuse_char :: "jschar \<Rightarrow> jschar" where
  "defuse_char c = (if c = 0x26 \<or> markup c then 0x5F else c)"

definition defuse :: "jsstring nullable \<Rightarrow> jsstring nullable" where
  "defuse x = (case x of Val s \<Rightarrow> Val (map defuse_char s) | Undefined \<Rightarrow> Undefined | Null \<Rightarrow> Null)"

definition defuse_list :: "('a \<Rightarrow> 'a) \<Rightarrow> 'a list nullable \<Rightarrow> 'a list nullable" where
  "defuse_list f x = (case x of Val xs \<Rightarrow> Val (map f xs) | Undefined \<Rightarrow> Undefined | Null \<Rightarrow> Null)"

definition defuse_reference :: "reference \<Rightarrow> reference" where
  "defuse_reference x = x\<lparr>url := defuse (url x)\<rparr>"

definition defuse_change :: "change \<Rightarrow> change" where
  "defuse_change c =
     \<lparr>c_code = defuse (c_code c), c_title = defuse (c_title c), c_noticeNo = defuse (c_noticeNo c),
      c_announceDate = defuse (c_announceDate c), c_effectiveDate = defuse (c_effectiveDate c),
      c_reason = defuse (c_reason c), c_refs = defuse_list defuse_reference (c_refs c)\<rparr>"

definition defuse_error :: "errorEntry \<Rightarrow> errorEntry" where
  "defuse_error e =
     \<lparr>e_code = defuse (e_code e), e_title = defuse (e_title e), e_where = defuse (e_where e),
      e_kind = defuse (e_kind e), e_status = defuse (e_status e),
      e_contentType = defuse (e_contentType e), e_head = defuse (e_head e)\<rparr>"

definition defuse_item :: "item \<Rightarrow> item" where
  "defuse_item it =
     \<lparr>i_code = defuse (i_code it), i_title = defuse (i_title it), i_query = defuse (i_query it)\<rparr>"

definition defuse_record :: "runRecord \<Rightarrow> runRecord" where
  "defuse_record rec =
     \<lparr>rec_date = defuse (rec_date rec), rec_result = defuse (rec_result rec),
      rec_summary = defuse (rec_summary rec), rec_meta = rec_meta rec,
      rec_changes = defuse_list defuse_change (rec_changes rec),
      rec_errors = defuse_list defuse_error (rec_errors rec)\<rparr>"

text \<open>
  \<open>amp_ok s\<close>: every ampersand of \<open>s\<close> begins one of the five entities
  \<^verbatim>\<open>&amp; &lt; &gt; &quot; &#39;\<close>.
\<close>

definition entity_follows :: "jsstring \<Rightarrow> bool" where
  "entity_follows s =
     (prefix (str ''amp;'') s \<or> prefix (str ''lt;'') s \<or> prefix (str ''gt;'') s
      \<or> prefix (str ''quot;'') s \<or> prefix (str ''#39;'') s)"

fun amp_ok :: "jsstring \<Rightarrow> bool" where
  "amp_ok [] = True"
| "amp_ok (c # s) = ((if c = 0x26 then entity_follows s else True) \<and> amp_ok s)"

text \<open>
  \<open>no_div s\<close>: every \<^verbatim>\<open><\<close> of \<open>s\<close> is followed by two more code units of \<open>s\<close> that
  are not \<open>di\<close>, so that no \<^verbatim>\<open><div\<close> begins anywhere in \<open>s\<close>.
\<close>

definition not_di :: "jsstring \<Rightarrow> bool" where
  "not_di s = (case s of x # y # _ \<Rightarrow> \<not> (x = 0x64 \<and> y = 0x69) | _ \<Rightarrow> False)"

fun no_div :: "jsstring \<Rightarrow> bool" where
  "no_div [] = True"
| "no_div (c # s) = ((if c = 0x3C then not_di s else True) \<and> no_div s)"

section \<open>Sample resources\<close>

text \<open>
  Concrete responses and pages on which the theorems below are exercised. \<open>respond r\<close> is
  a host that answers every request with \<open>r\<close>; \<open>sample_parse\<close> stands in for
  \<^verbatim>\<open>JSON.parse\<close> on the sample bodies and rejects every other text.
\<close>

definition respond :: "response \<Rightarrow> jsstring \<Rightarrow> error + response" where
  "respond r path = Inr r"

definition sample_record :: runRecord where
  "sample_record =
     \<lparr>rec_date = Val (str ''2024-01-01''), rec_result = Val (str ''OK''), rec_summary = Undefined,
      rec_meta = Val \<lparr>mock = Val True\<rparr>, rec_changes = Val [], rec_errors = Val []\<rparr>"

definition sample_log_body :: jsstring where
  \<open>sample_log_body =
     str ''{"records":[{"date":"2024-01-01","result":"OK","meta":{"mock":true},"changes":[],"errors":[]}]}''\<close>

definition sample_item :: item where
  "sample_item = \<lparr>i_code = Val (str ''NFPC 101''), i_title = Val (str ''A&B <1>''), i_query = Undefined\<rparr>"

definition sample_items_body :: jsstring where
  \<open>sample_items_body = str ''{"items":[{"code":"NFPC 101","title":"A&B <1>"}]}''\<close>

definition html_as_json :: response where
  "html_as_json =
     \<lparr>r_ok = True, r_status = 200, r_content_type = Val (str ''application/json; charset=utf-8''),
      r_text = Inr (str ''<html>'')\<rparr>"

definition html_as_octets :: response where
  "html_as_octets =
     \<lparr>r_ok = True, r_status = 200, r_content_type = Val (str ''Application/Octet-Stream''),
      r_text = Inr (str ''<html>'')\<rparr>"

definition blank_body :: response where
  "blank_body =
     \<lparr>r_ok = True, r_status = 200, r_content_type = Val (str ''application/json''),
      r_text = Inr (str '' \<newline>'')\<rparr>"

definition blank_as_octets :: response where
  "blank_as_octets =
     \<lparr>r_ok = True, r_status = 200, r_content_type = Val (str ''application/octet-stream''),
      r_text = Inr (str '' \<newline>'')\<rparr>"

text \<open>
  A site serving the three resources, a response that declares JSON, a missing file, and a
  page as the markup might provide it.
\<close>

definition serve :: "response \<Rightarrow> response \<Rightarrow> response \<Rightarrow> jsstring \<Rightarrow> error + response" where
  "serve a b c path =
     (if path = path_log then Inr a
      else if path = path_nfpc then Inr b
      else if path = path_nftc then Inr c
      else Inl (TypeError (str ''Failed to fetch'')))"

definition ok_json :: "jsstring \<Rightarrow> response" where
  "ok_json body =
     \<lparr>r_ok = True, r_status = 200, r_content_type = Val (str ''application/json''), r_text = Inr body\<rparr>"

definition not_found :: response where
  "not_found =
     \<lparr>r_ok = False, r_status = 404, r_content_type = Val (str ''text/html''),
      r_text = Inr (str ''<html>Not Found</html>'')\<rparr>"

definition blank_element :: element where
  "blank_element = \<lparr>classList = [str ''pill''], textContent = str ''-''\<rparr>"

definition blank_page :: page where
  "blank_page =
     \<lparr>runPill = blank_element, modePill = blank_element, changesPill = blank_element,
      errorsPill = blank_element, statusText = \<lparr>classList = [str ''small''], textContent = []\<rparr>,
      logHtml = [], nfpcList = [], nftcList = [], console = []\<rparr>"

text \<open>Entries with characters that need escaping, a head of 69 code units, and missing fields.\<close>

definition script_error :: errorEntry where
  "script_error =
     \<lparr>e_code = Undefined, e_title = Undefined, e_where = Undefined, e_kind = Undefined,
      e_status = Undefined, e_contentType = Undefined,
      e_head = Val (str ''<script>alert(1)</script>'')\<rparr>"

definition long_error :: errorEntry where
  "long_error =
     \<lparr>e_code = Val (str ''NFTC 102''), e_title = Null, e_where = Val (str ''lawSearch''),
      e_kind = Val (str ''not_json''), e_status = Val (str ''404''), e_contentType = Val (str ''text/html''),
      e_head = Val (str ''<!DOCTYPE html><html><head><title>Page not found</title></head><body>'')\<rparr>"

definition sample_change :: change where
  "sample_change =
     \<lparr>c_code = Val (str ''NFPC 103''), c_title = Val (str ''Sprinkler''), c_noticeNo = Undefined,
      c_announceDate = Val (str ''2024-01-01''), c_effectiveDate = Null, c_reason = Val (str ''a<b''),
      c_refs = Val [\<lparr>url = Val (str ''https://example.org/?a=1&b=2'')\<rparr>, \<lparr>url = Undefined\<rparr>]\<rparr>"

definition busy_record :: runRecord where
  "busy_record =
     \<lparr>rec_date = Val (str ''2024-02-02''), rec_result = Val (str ''CHANGED''), rec_summary = Val (str ''1 change''),
      rec_meta = Undefined, rec_changes = Val [sample_change], rec_errors = Val [long_error]\<rparr>"

definition busy_log_body :: jsstring where
  \<open>busy_log_body =
     str ''{"records":[{"date":"2024-02-02","result":"CHANGED","summary":"1 change","changes":[{"code":"NFPC 103","title":"Sprinkler","announceDate":"2024-01-01","effectiveDate":null,"reason":"a<b","refs":[{"url":"https://example.org/?a=1&b=2"},{}]}],"errors":[{"code":"NFTC 102","title":null,"where":"lawSearch","kind":"not_json","status":"404","contentType":"text/html","head":"<!DOCTYPE html><html><head><title>Page not found</title></head><body>"}]}]}''\<close>

definition sample_parse :: "jsstring \<Rightarrow> jsstring + parsed" where
  \<open>sample_parse text =
     (if text = sample_log_body
      then Inr (PObj \<lparr>d_records = Val [Val sample_record], d_items = Undefined\<rparr>)
      else if text = busy_log_body
      then Inr (PObj \<lparr>d_records = Val [Val busy_record], d_items = Undefined\<rparr>)
      else if text = str ''{"records":[]}''
      then Inr (PObj \<lparr>d_records = Val [], d_items = Undefined\<rparr>)
      else if text = sample_items_body
      then Inr (PObj \<lparr>d_records = Undefined, d_items = Val [sample_item]\<rparr>)
      else if text = str ''{"items":[]}''
      then Inr (PObj \<lparr>d_records = Undefined, d_items = Val []\<rparr>)
      else if text = str ''null''
      then Inr PNull
      else Inl (str ''Unexpected token''))\<close>

section \<open>Properties of the resource fetcher\<close>

lemmas ko_defs = ko_original_def ko_changes_detail_def ko_code_def ko_title_def ko_notice_no_def
  ko_announce_date_def ko_effective_date_def ko_reason_def ko_no_changes_def ko_errors_diag_def
  ko_where_def ko_kind_def ko_no_errors_def ko_no_items_def ko_query_def ko_no_data_def
  ko_load_failed_def ko_last_run_def ellipsis_def

lemma dropWhile_all_iff: "(\<forall>x\<in>set (dropWhile P s). P x) \<longleftrightarrow> (\<forall>x\<in>set s. P x)"
  by (induction s) auto

lemma trim_empty_iff: "trim s = [] \<longleftrightarrow> (\<forall>c\<in>set s. is_space c)"
  by (simp add: trim_def dropWhile_eq_Nil_conv dropWhile_all_iff)

lemmas sample_eval = fetchJson_def respond_def Let_def toLowerCase_def or_str_def str_def trim_def
  is_space_def lower_char_def includes_str_def sublist_code [abs_def] path_log_def path_nfpc_def
  path_nftc_def sample_parse_def sample_log_body_def sample_items_body_def busy_log_body_def

text \<open>
  C1, as the code has it. A body that is not blank and that \<^verbatim>\<open>JSON.parse\<close> rejects makes
  \<open>fetchJson\<close> fail. When the lower-cased content type does not contain \<open>json\<close>, the failure
  is the error \<open>NOT_JSON\<close> with the path, the lower-cased content type and the first 120
  code units of the body. When the content type does contain \<open>json\<close>, the SyntaxError of
  \<^verbatim>\<open>JSON.parse\<close> leaves \<open>fetchJson\<close> as it is.
\<close>

theorem fetchJson_undecodable:
  assumes "fetch path = Inr r" and "r_ok r" and "r_text r = Inr text"
    and "trim text \<noteq> []" and "parse text = Inl m"
  shows "fetchJson fetch parse path =
     (let ct = toLowerCase (or_str (r_content_type r) []) in
      if includes_str ct (str ''json'') then Inl (SyntaxError m)
      else Inl (Error (str ''NOT_JSON '' @ path @ str '' ct='' @ ct @ str '' head='' @ take 120 text)))"
  using assms by (simp add: fetchJson_def Let_def)

theorem fetchJson_undecodable_witness:
  "fetchJson (respond html_as_octets) sample_parse path_log =
     Inl (Error (str ''NOT_JSON ../data_test.json ct=application/octet-stream head=<html>''))"
proof -
  have 1: "respond html_as_octets path_log = Inr html_as_octets"
    by (simp add: respond_def)
  have 2: "r_ok html_as_octets" and 3: "r_text html_as_octets = Inr (str ''<html>'')"
    by (simp_all add: html_as_octets_def)
  have 4: "trim (str ''<html>'') \<noteq> []"
    by (simp add: trim_def str_def is_space_def)
  have 5: "sample_parse (str ''<html>'') = Inl (str ''Unexpected token'')"
    by (simp add: sample_parse_def sample_log_body_def sample_items_body_def busy_log_body_def str_def)
  show ?thesis
    using fetchJson_undecodable [where fetch = "respond html_as_octets" and parse = sample_parse, OF 1 2 3 4 5]
    by (simp add: html_as_octets_def sample_eval)
qed

text \<open>
  C1 as the claim states it fails when the content type declares JSON: the body
  \<^verbatim>\<open><html>\<close> is not empty and does not decode, and the failure is the SyntaxError, which
  carries neither the path nor the content type nor the head. It also fails for a body that
  is not empty but blank: a space and a line feed do not decode either, and the failure is
  the error \<open>EMPTY\<close>, under any content type.
\<close>

theorem fetchJson_json_type_counterexample:
  "fetchJson (respond html_as_json) sample_parse path_log = Inl (SyntaxError (str ''Unexpected token''))
   \<and> fetchJson (respond html_as_json) sample_parse path_log \<noteq>
       Inl (Error (str ''NOT_JSON ../data_test.json ct=application/json; charset=utf-8 head=<html>''))
   \<and> sample_parse (str '' \<newline>'') = Inl (str ''Unexpected token'')
   \<and> fetchJson (respond blank_as_octets) sample_parse path_log = Inl (Error (str ''EMPTY ../data_test.json''))
   \<and> fetchJson (respond blank_as_octets) sample_parse path_log \<noteq>
       Inl (Error (str ''NOT_JSON ../data_test.json ct=application/octet-stream head= \<newline>''))"
  by (simp add: html_as_json_def blank_as_octets_def sample_eval)

text \<open>
  C8. A successful response whose body is empty or consists of white space only makes
  \<open>fetchJson\<close> fail with the error \<open>EMPTY\<close> and the requested path; no failure to decode a
  body (of any request, under any content type) is equal to it.
\<close>

theorem fetchJson_empty_body:
  assumes "fetch path = Inr r" and "r_ok r" and "r_text r = Inr text"
    and "\<forall>c\<in>set text. is_space c"
    and "fetch' path' = Inr r'" and "r_ok r'" and "r_text r' = Inr text'"
    and "\<not> (\<forall>c\<in>set text'. is_space c)" and "parse' text' = Inl m"
  shows "fetchJson fetch parse path = Inl (Error (str ''EMPTY '' @ path))
       \<and> fetchJson fetch' parse' path' \<noteq> fetchJson fetch parse path"
  using assms by (auto simp: fetchJson_def Let_def trim_empty_iff str_def)

theorem fetchJson_empty_body_witness:
  "fetchJson (respond blank_body) sample_parse path_log = Inl (Error (str ''EMPTY ../data_test.json''))
   \<and> fetchJson (respond html_as_octets) sample_parse path_log
       \<noteq> fetchJson (respond blank_body) sample_parse path_log"
proof -
  have 1: "respond blank_body path_log = Inr blank_body"
    and 5: "respond html_as_octets path_log = Inr html_as_octets"
    by (simp_all add: respond_def)
  have 2: "r_ok blank_body" and 3: "r_text blank_body = Inr (str '' \<newline>'')"
    by (simp_all add: blank_body_def)
  have 4: "\<forall>c\<in>set (str '' \<newline>''). is_space c"
    by (simp add: str_def is_space_def)
  have 6: "r_ok html_as_octets" and 7: "r_text html_as_octets = Inr (str ''<html>'')"
    by (simp_all add: html_as_octets_def)
  have 8: "\<not> (\<forall>c\<in>set (str ''<html>''). is_space c)"
    by (simp add: str_def is_space_def)
  have 9: "sample_parse (str ''<html>'') = Inl (str ''Unexpected token'')"
    by (simp add: sample_parse_def sample_log_body_def sample_items_body_def busy_log_body_def str_def)
  show ?thesis
    using fetchJson_empty_body [where fetch = "respond blank_body" and fetch' = "respond html_as_octets"
        and parse = sample_parse and parse' = sample_parse, OF 1 2 3 4 5 6 7 8 9]
    by (auto simp: path_log_def str_def)
qed

section \<open>Properties of escaping\<close>

lemma join_Nil_sep: "sep = [] \<Longrightarrow> join sep xs = concat xs"
  by (induction sep xs rule: join.induct) auto

lemma markup_esc_char: "filter markup (esc_char c) = []"
  by (simp add: esc_char_def str_def markup_def)

lemma markup_esc: "filter markup (esc x) = []"
  by (simp add: esc_def filter_concat markup_esc_char comp_def)

lemma filter_join: "filter P (join sep xs) = join (filter P sep) (map (filter P) xs)"
  by (induction sep xs rule: join.induct) auto

lemma defuse_simps [simp]:
  "truthy_str (defuse x) = truthy_str x"
  "length (or_str (defuse x) []) = length (or_str x [])"
  by (auto simp: defuse_def truthy_str_def or_str_def split: nullable.splits)

lemma or_arr_defuse_list [simp]: "or_arr (defuse_list f x) [] = map f (or_arr x [])"
  by (simp add: defuse_list_def or_arr_def split: nullable.splits)

lemma markup_refLink: "filter markup (refLink (defuse_reference x)) = filter markup (refLink x)"
  by (simp add: refLink_def defuse_reference_def markup_esc)

lemma markup_rowChange: "filter markup (rowChange (defuse_change c)) = filter markup (rowChange c)"
proof -
  have "map (filter markup) (map refLink (map defuse_reference xs)) = map (filter markup) (map refLink xs)" for xs
    by (induction xs) (simp_all add: markup_refLink)
  then show ?thesis
    by (simp add: rowChange_def defuse_change_def markup_esc filter_join del: map_map)
qed

lemma markup_rowError: "filter markup (rowError (defuse_error e)) = filter markup (rowError e)"
  by (simp add: rowError_def defuse_error_def markup_esc)

lemma markup_rowItem: "filter markup (rowItem (defuse_item e)) = filter markup (rowItem e)"
  by (simp add: rowItem_def defuse_item_def markup_esc)

lemma isMock_defuse [simp]: "isMock (defuse_record rec) = isMock rec"
  by (simp add: isMock_def defuse_record_def)

lemma markup_rows:
  "filter markup (join [] (map rowChange (map defuse_change cs))) = filter markup (join [] (map rowChange cs))"
  "filter markup (join [] (map rowError (map defuse_error es))) = filter markup (join [] (map rowError es))"
  "filter markup (join [] (map rowItem (map defuse_item its))) = filter markup (join [] (map rowItem its))"
proof -
  have "map (filter markup) (map rowChange (map defuse_change cs)) = map (filter markup) (map rowChange cs)"
    by (induction cs) (simp_all add: markup_rowChange)
  then show "filter markup (join [] (map rowChange (map defuse_change cs))) = filter markup (join [] (map rowChange cs))"
    by (simp add: filter_join del: map_map)
  have "map (filter markup) (map rowError (map defuse_error es)) = map (filter markup) (map rowError es)"
    by (induction es) (simp_all add: markup_rowError)
  then show "filter markup (join [] (map rowError (map defuse_error es))) = filter markup (join [] (map rowError es))"
    by (simp add: filter_join del: map_map)
  have "map (filter markup) (map rowItem (map defuse_item its)) = map (filter markup) (map rowItem its)"
    by (induction its) (simp_all add: markup_rowItem)
  then show "filter markup (join [] (map rowItem (map defuse_item its))) = filter markup (join [] (map rowItem its))"
    by (simp add: filter_join del: map_map)
qed

lemma markup_renderList: "filter markup (renderList (defuse_list defuse_item items)) = filter markup (renderList items)"
  by (simp add: renderList_def markup_rows del: map_map)

lemma markup_detailsChanges:
  "filter markup (detailsChanges (map defuse_change cs) (join [] (map rowChange (map defuse_change cs))))
     = filter markup (detailsChanges cs (join [] (map rowChange cs)))"
  by (simp add: detailsChanges_def markup_rows del: map_map)

lemma markup_detailsErrors:
  "filter markup (detailsErrors (map defuse_error es) (join [] (map rowError (map defuse_error es))))
     = filter markup (detailsErrors es (join [] (map rowError es)))"
  by (simp add: detailsErrors_def markup_rows del: map_map)

lemma defuse_record_sel [simp]:
  "rec_date (defuse_record rec) = defuse (rec_date rec)"
  "rec_result (defuse_record rec) = defuse (rec_result rec)"
  "rec_summary (defuse_record rec) = defuse (rec_summary rec)"
  "rec_changes (defuse_record rec) = defuse_list defuse_change (rec_changes rec)"
  "rec_errors (defuse_record rec) = defuse_list defuse_error (rec_errors rec)"
  by (simp_all add: defuse_record_def)

lemma markup_renderLog: "filter markup (renderLog (defuse_record rec)) = filter markup (renderLog rec)"
  unfolding renderLog_def Let_def
  by (simp add: markup_esc markup_detailsChanges markup_detailsErrors del: map_map)

subsection \<open>Ampersands\<close>

lemma entity_follows_append: "entity_follows s \<Longrightarrow> entity_follows (s @ t)"
  by (auto simp: entity_follows_def)

lemma amp_ok_append: "amp_ok a \<Longrightarrow> amp_ok b \<Longrightarrow> amp_ok (a @ b)"
  by (induction a) (auto simp: entity_follows_append)

lemma amp_ok_no_amp: "0x26 \<notin> set s \<Longrightarrow> amp_ok s"
  by (induction s) auto

lemma amp_ok_esc_char: "amp_ok (esc_char c)"
  by (simp add: esc_char_def str_def entity_follows_def)

lemma amp_ok_esc: "amp_ok (esc x)"
proof -
  have "amp_ok (concat (map esc_char s))" for s
    by (induction s) (auto intro: amp_ok_append amp_ok_esc_char)
  then show ?thesis by (simp add: esc_def)
qed

lemma amp_ok_join: "(\<And>x. x \<in> set xs \<Longrightarrow> amp_ok x) \<Longrightarrow> amp_ok sep \<Longrightarrow> amp_ok (join sep xs)"
  by (induction sep xs rule: join.induct) (auto intro!: amp_ok_append)

lemma digit_cases: "k < 10 \<Longrightarrow> k = 0 \<or> k = 1 \<or> k = 2 \<or> k = 3 \<or> k = 4 \<or> k = 5 \<or> k = 6 \<or> k = 7 \<or> k = 8 \<or> k = (9::nat)"
  by arith

lemma digit_not_amp: "k < 10 \<Longrightarrow> (0x30 + of_nat k :: jschar) \<noteq> 0x26"
  using digit_cases [of k] by auto

lemma amp_notin_show_nat: "0x26 \<notin> set (show_nat n)"
proof (induction n rule: show_nat.induct)
  case (1 n)
  show ?case
  proof (cases "n < 10")
    case True
    then show ?thesis by (subst show_nat.simps) (simp add: digit_not_amp del: show_nat.simps)
  next
    case False
    have "n mod 10 < 10" by simp
    then have "(0x30 + of_nat (n mod 10) :: jschar) \<noteq> 0x26" by (rule digit_not_amp)
    with 1 False show ?thesis by (subst show_nat.simps) (simp del: show_nat.simps)
  qed
qed

lemma amp_ok_if: "amp_ok x \<Longrightarrow> amp_ok y \<Longrightarrow> amp_ok (if b then x else y)"
  by simp

lemma amp_ok_show_nat: "amp_ok (show_nat n)"
  by (rule amp_ok_no_amp) (rule amp_notin_show_nat)

lemma amp_ok_refLink: "amp_ok (refLink x)"
  unfolding refLink_def
  by (intro amp_ok_if amp_ok_append amp_ok_esc) (simp_all add: str_def ko_defs)

lemma amp_ok_rowChange: "amp_ok (rowChange c)"
  unfolding rowChange_def
  by (intro amp_ok_append amp_ok_esc amp_ok_join amp_ok_refLink) (auto simp: str_def amp_ok_refLink)

lemma amp_ok_rowError: "amp_ok (rowError e)"
  unfolding rowError_def
  by (intro amp_ok_if amp_ok_append amp_ok_esc) (simp_all add: str_def ko_defs)

lemma amp_ok_rowItem: "amp_ok (rowItem it)"
  unfolding rowItem_def
  by (intro amp_ok_append amp_ok_esc) (simp_all add: str_def)

lemma amp_ok_rows:
  "amp_ok (join [] (map rowChange cs))" "amp_ok (join [] (map rowError es))" "amp_ok (join [] (map rowItem its))"
  by (auto intro!: amp_ok_join simp: amp_ok_rowChange amp_ok_rowError amp_ok_rowItem)

lemma amp_ok_renderList: "amp_ok (renderList items)"
  unfolding renderList_def
  by (intro amp_ok_if amp_ok_append amp_ok_rows) (simp_all add: str_def ko_defs)

lemma amp_ok_detailsChanges: "amp_ok r \<Longrightarrow> amp_ok (detailsChanges cs r)"
  unfolding detailsChanges_def
  by (intro amp_ok_if amp_ok_append) (simp_all add: str_def ko_defs)

lemma amp_ok_detailsErrors: "amp_ok r \<Longrightarrow> amp_ok (detailsErrors cs r)"
  unfolding detailsErrors_def
  by (intro amp_ok_if amp_ok_append) (simp_all add: str_def ko_defs)

lemma amp_ok_renderLog: "amp_ok (renderLog rec)"
  unfolding renderLog_def Let_def
  by (intro amp_ok_if amp_ok_append amp_ok_esc amp_ok_show_nat amp_ok_detailsChanges amp_ok_detailsErrors amp_ok_rows)
     (simp_all add: str_def)

subsection \<open>How \<open>esc\<close> rewrites a string\<close>

lemma esc_append: "esc (Val (s @ t)) = esc (Val s) @ esc (Val t)"
  by (simp add: esc_def nullish_or_def)

lemma esc_single: "esc (Val [c]) = esc_char c"
  by (simp add: esc_def nullish_or_def)

subsection \<open>Missing fields\<close>

lemma esc_present [simp]: "esc (present x) = esc x"
  by (simp add: esc_def present_def nullish_or_def split: nullable.splits)

lemma or_str_present [simp]: "or_str (present x) [] = or_str x []"
  by (simp add: or_str_def present_def nullish_or_def split: nullable.splits)

text \<open>
  C10. \<open>esc\<close> returns the empty string for \<open>undefined\<close> and for \<open>null\<close>. A row of the changes
  table, of the errors table and of an inventory is rendered for an entry with missing or
  \<open>null\<close> fields exactly as for the entry with empty strings (and an empty \<open>refs\<close>) in their
  place; the row of an entry with no field at all consists of empty cells only, so the
  text \<open>undefined\<close> is not in it. The three functions are total: no entry makes them
  throw.
\<close>

theorem absent_fields_render_empty:
  \<open>esc Undefined = [] \<and> esc Null = []
   \<and> rowChange c = rowChange (present_change c)
   \<and> rowError e = rowError (present_error e)
   \<and> rowItem it = rowItem (present_item it)
   \<and> rowChange \<lparr>c_code = Undefined, c_title = Undefined, c_noticeNo = Undefined, c_announceDate = Undefined,
         c_effectiveDate = Undefined, c_reason = Undefined, c_refs = Undefined\<rparr>
       = str ''\<newline>    <tr>\<newline>      <td></td>\<newline>      <td></td>\<newline>      <td></td>\<newline>      <td></td>\<newline>      <td></td>\<newline>      <td></td>\<newline>      <td></td>\<newline>    </tr>\<newline>  ''
   \<and> rowError \<lparr>e_code = Null, e_title = Null, e_where = Null, e_kind = Null, e_status = Null,
         e_contentType = Null, e_head = Null\<rparr>
       = str ''\<newline>    <tr>\<newline>      <td></td>\<newline>      <td></td>\<newline>      <td></td>\<newline>      <td></td>\<newline>      <td></td>\<newline>      <td></td>\<newline>      <td title=""></td>\<newline>    </tr>\<newline>  ''
   \<and> rowItem \<lparr>i_code = Undefined, i_title = Null, i_query = Undefined\<rparr>
       = str ''<tr><td></td><td></td><td class="mono"></td></tr>''\<close>
proof -
  have 1: "esc Undefined = []" "esc Null = []"
    by (simp_all add: esc_def nullish_or_def)
  have 2: "rowChange c = rowChange (present_change c)"
    by (simp add: rowChange_def present_change_def or_arr_def)
  have 3: "rowError e = rowError (present_error e)"
    by (simp add: rowError_def present_error_def)
  have 4: "rowItem it = rowItem (present_item it)"
    by (simp add: rowItem_def present_item_def)
  have 5: \<open>rowChange \<lparr>c_code = Undefined, c_title = Undefined, c_noticeNo = Undefined, c_announceDate = Undefined,
         c_effectiveDate = Undefined, c_reason = Undefined, c_refs = Undefined\<rparr>
       = str ''\<newline>    <tr>\<newline>      <td></td>\<newline>      <td></td>\<newline>      <td></td>\<newline>      <td></td>\<newline>      <td></td>\<newline>      <td></td>\<newline>      <td></td>\<newline>    </tr>\<newline>  ''\<close>
    by (simp add: rowChange_def esc_def nullish_or_def or_str_def or_arr_def str_def)
  have 6: \<open>rowError \<lparr>e_code = Null, e_title = Null, e_where = Null, e_kind = Null, e_status = Null,
         e_contentType = Null, e_head = Null\<rparr>
       = str ''\<newline>    <tr>\<newline>      <td></td>\<newline>      <td></td>\<newline>      <td></td>\<newline>      <td></td>\<newline>      <td></td>\<newline>      <td></td>\<newline>      <td title=""></td>\<newline>    </tr>\<newline>  ''\<close>
    by (simp add: rowError_def esc_def nullish_or_def or_str_def str_def)
  have 7: \<open>rowItem \<lparr>i_code = Undefined, i_title = Null, i_query = Undefined\<rparr>
       = str ''<tr><td></td><td></td><td class="mono"></td></tr>''\<close>
    by (simp add: rowItem_def esc_def nullish_or_def or_str_def str_def)
  from 1 2 3 4 5 6 7 show ?thesis by blast
qed

subsection \<open>The head cell of an error row\<close>

text \<open>
  C6. The row of an error entry ends with the head cell: its \<open>title\<close> attribute holds the
  whole head, escaped; its content is the first 60 code units of the raw head, cut first and
  escaped afterwards, followed by the ellipsis U+2026 exactly when the raw head is longer
  than 60 code units. A missing or \<open>null\<close> head counts as the empty string.
\<close>

theorem head_cell_truncated:
  \<open>suffix (str ''<td title="'' @ esc (Val (nullish_or (e_head e) []))
           @ str ''">'' @ esc (Val (take 60 (nullish_or (e_head e) [])))
           @ (if length (nullish_or (e_head e) []) > 60 then [0x2026] else [])
           @ str ''</td>\<newline>    </tr>\<newline>  '')
      (rowError e)\<close>
proof -
  have h: "or_str (e_head e) [] = nullish_or (e_head e) []"
    by (simp add: or_str_def nullish_or_def split: nullable.splits)
  have s: \<open>str ''</td>\<newline>      <td title="'' = str ''</td>\<newline>      '' @ str ''<td title="''\<close>
    by (simp add: str_def)
  show ?thesis
    unfolding rowError_def h s ellipsis_def suffix_def
    by (rule exI [of _ \<open>str ''\<newline>    <tr>\<newline>      <td>'' @ esc (Val (or_str (e_code e) []))
     @ str ''</td>\<newline>      <td>'' @ esc (Val (or_str (e_title e) []))
     @ str ''</td>\<newline>      <td>'' @ esc (Val (or_str (e_where e) []))
     @ str ''</td>\<newline>      <td>'' @ esc (Val (or_str (e_kind e) []))
     @ str ''</td>\<newline>      <td>'' @ esc (Val (or_str (e_status e) []))
     @ str ''</td>\<newline>      <td>'' @ esc (Val (or_str (e_contentType e) []))
     @ str ''</td>\<newline>      ''\<close>]) simp
qed

text \<open>
  A head of 69 code units is cut after \<^verbatim>\<open></he\<close> and gets the ellipsis; the head
  \<^verbatim>\<open><script>alert(1)</script>\<close> is shown whole, escaped, without one.
\<close>

theorem head_cell_truncated_witness:
  \<open>suffix (str ''<td title="&lt;!DOCTYPE html&gt;&lt;html&gt;&lt;head&gt;&lt;title&gt;Page not found&lt;/title&gt;&lt;/head&gt;&lt;body&gt;">''
           @ str ''&lt;!DOCTYPE html&gt;&lt;html&gt;&lt;head&gt;&lt;title&gt;Page not found&lt;/title&gt;&lt;/he''
           @ [0x2026] @ str ''</td>\<newline>    </tr>\<newline>  '')
      (rowError long_error)
   \<and> suffix (str ''<td title="&lt;script&gt;alert(1)&lt;/script&gt;">&lt;script&gt;alert(1)&lt;/script&gt;</td>\<newline>    </tr>\<newline>  '')
      (rowError script_error)\<close>
  using head_cell_truncated [of long_error] head_cell_truncated [of script_error]
  by (simp add: long_error_def script_error_def nullish_or_def esc_def esc_char_def str_def)

section \<open>Properties of the status renderer\<close>

subsection \<open>No data opens a \<open>div\<close> inside a table\<close>

lemma not_di_append: "not_di s \<Longrightarrow> not_di (s @ b)"
  by (auto simp: not_di_def split: list.splits)

lemma no_div_no_lt: "0x3C \<notin> set s \<Longrightarrow> no_div s"
  by (induction s) auto

lemma no_div_append: "no_div a \<Longrightarrow> no_div b \<Longrightarrow> no_div (a @ b)"
  by (induction a) (auto simp: not_di_append)

lemma lt_notin_esc_char: "0x3C \<notin> set (esc_char c)"
  by (simp add: esc_char_def str_def)

lemma lt_notin_esc: "0x3C \<notin> set (esc x)"
  by (simp add: esc_def lt_notin_esc_char)

lemma no_div_esc: "no_div (esc x)"
  by (rule no_div_no_lt) (rule lt_notin_esc)

lemma no_div_join: "(\<And>x. x \<in> set xs \<Longrightarrow> no_div x) \<Longrightarrow> no_div sep \<Longrightarrow> no_div (join sep xs)"
  by (induction sep xs rule: join.induct) (auto intro!: no_div_append)

lemma not_di_not_prefix: "not_di s \<Longrightarrow> \<not> prefix (0x64 # 0x69 # r) s"
  by (auto simp: not_di_def split: list.splits)

lemma no_div_sublist: "no_div s \<Longrightarrow> \<not> sublist (0x3C # 0x64 # 0x69 # r) s"
  by (induction s) (auto simp: sublist_Cons_right not_di_not_prefix)

lemma no_div_lits:
  \<open>no_div (str ''<a href="'')\<close>
  \<open>no_div (str ''" target="_blank" rel="noreferrer">'')\<close>
  \<open>no_div (str ''</a>'')\<close>
  \<open>no_div (str ''\<newline>    <tr>\<newline>      <td>'')\<close>
  \<open>no_div (str ''</td>\<newline>      <td>'')\<close>
  \<open>no_div (str ''</td>\<newline>    </tr>\<newline>  '')\<close>
  \<open>no_div (str ''</td>\<newline>      <td title="'')\<close>
  \<open>no_div (str ''">'')\<close>
  \<open>no_div (str '' '')\<close>
  \<open>no_div ellipsis\<close>
  \<open>no_div ko_original\<close>
  by (simp_all add: str_def not_di_def ko_defs)

lemma no_div_refLink: "no_div (refLink x)"
  unfolding refLink_def
  by (auto intro!: no_div_append no_div_esc no_div_lits)

lemma no_div_rowChange: "no_div (rowChange c)"
  unfolding rowChange_def
  by (intro no_div_append no_div_esc no_div_join no_div_refLink no_div_lits) (auto simp: no_div_refLink)

lemma no_div_rowError: "no_div (rowError c)"
  unfolding rowError_def
  by (intro no_div_append no_div_esc no_div_lits) (auto simp: no_div_lits)

lemma no_div_rows: "no_div (join [] (map rowChange cs))" "no_div (join [] (map rowError es))"
  by (auto intro!: no_div_join simp: no_div_rowChange no_div_rowError)

lemmas section_eval = str_def ko_defs sublist_code prefix_code

lemma detailsChanges_empty:
  \<open>prefix (str ''<details style="margin-top:10px" >'') (detailsChanges [] r)\<close>
  \<open>\<not> prefix (str ''<details style="margin-top:10px" open>'') (detailsChanges [] r)\<close>
  \<open>\<not> sublist (str ''<table>'') (detailsChanges [] r)\<close>
  \<open>sublist (str ''<div class="small" style="margin-top:6px">'' @ ko_no_changes @ str ''</div>'') (detailsChanges [] r)\<close>
  by (simp_all add: detailsChanges_def section_eval)

lemma detailsChanges_nonempty:
  assumes "cs \<noteq> []"
  shows \<open>\<not> prefix (str ''<details style="margin-top:10px" >'') (detailsChanges cs r)\<close>
    and \<open>prefix (str ''<details style="margin-top:10px" open>'') (detailsChanges cs r)\<close>
    and \<open>sublist (str ''<table>'') (detailsChanges cs r)\<close>
  using assms by (simp_all add: detailsChanges_def section_eval)

lemma no_div_detailsChanges:
  assumes "cs \<noteq> []" and "no_div r"
  shows "no_div (detailsChanges cs r)"
  unfolding detailsChanges_def using assms
  by (auto intro!: no_div_append simp: str_def ko_defs not_di_def)

lemma detailsChanges_no_placeholder:
  assumes "cs \<noteq> []" and "no_div r"
  shows \<open>\<not> sublist (str ''<div class="small" style="margin-top:6px">'' @ ko_no_changes @ str ''</div>'') (detailsChanges cs r)\<close>
  using no_div_sublist [OF no_div_detailsChanges [OF assms]]
  by (simp add: str_def)

lemma detailsErrors_empty:
  \<open>prefix (str ''<details style="margin-top:10px" >'') (detailsErrors [] r)\<close>
  \<open>\<not> prefix (str ''<details style="margin-top:10px" open>'') (detailsErrors [] r)\<close>
  \<open>\<not> sublist (str ''<table>'') (detailsErrors [] r)\<close>
  \<open>sublist (str ''<div class="small" style="margin-top:6px">'' @ ko_no_errors @ str ''</div>'') (detailsErrors [] r)\<close>
  by (simp_all add: detailsErrors_def section_eval)

lemma detailsErrors_nonempty:
  assumes "es \<noteq> []"
  shows \<open>\<not> prefix (str ''<details style="margin-top:10px" >'') (detailsErrors es r)\<close>
    and \<open>prefix (str ''<details style="margin-top:10px" open>'') (detailsErrors es r)\<close>
    and \<open>sublist (str ''<table>'') (detailsErrors es r)\<close>
  using assms by (simp_all add: detailsErrors_def section_eval)

lemma no_div_detailsErrors:
  assumes "es \<noteq> []" and "no_div r"
  shows "no_div (detailsErrors es r)"
  unfolding detailsErrors_def using assms
  by (auto intro!: no_div_append simp: str_def ko_defs not_di_def)

lemma detailsErrors_no_placeholder:
  assumes "es \<noteq> []" and "no_div r"
  shows \<open>\<not> sublist (str ''<div class="small" style="margin-top:6px">'' @ ko_no_errors @ str ''</div>'') (detailsErrors es r)\<close>
  using no_div_sublist [OF no_div_detailsErrors [OF assms]]
  by (simp add: str_def)

lemma changesSection_cases:
  \<open>(prefix (str ''<details style="margin-top:10px" open>'') (changesSection rec) \<longleftrightarrow> or_arr (rec_changes rec) [] \<noteq> [])
   \<and> (prefix (str ''<details style="margin-top:10px" >'') (changesSection rec) \<longleftrightarrow> or_arr (rec_changes rec) [] = [])
   \<and> (sublist (str ''<table>'') (changesSection rec) \<longleftrightarrow> or_arr (rec_changes rec) [] \<noteq> [])
   \<and> (sublist (str ''<div class="small" style="margin-top:6px">'' @ ko_no_changes @ str ''</div>'') (changesSection rec)
        \<longleftrightarrow> or_arr (rec_changes rec) [] = [])\<close>
proof (cases "or_arr (rec_changes rec) [] = []")
  case True
  then show ?thesis
    unfolding changesSection_def Let_def using detailsChanges_empty by simp
next
  case False
  then show ?thesis
    unfolding changesSection_def Let_def
    using detailsChanges_nonempty [OF False] detailsChanges_no_placeholder [OF False no_div_rows(1)]
    by simp
qed

lemma errorsSection_cases:
  \<open>(prefix (str ''<details style="margin-top:10px" open>'') (errorsSection rec) \<longleftrightarrow> or_arr (rec_errors rec) [] \<noteq> [])
   \<and> (prefix (str ''<details style="margin-top:10px" >'') (errorsSection rec) \<longleftrightarrow> or_arr (rec_errors rec) [] = [])
   \<and> (sublist (str ''<table>'') (errorsSection rec) \<longleftrightarrow> or_arr (rec_errors rec) [] \<noteq> [])
   \<and> (sublist (str ''<div class="small" style="margin-top:6px">'' @ ko_no_errors @ str ''</div>'') (errorsSection rec)
        \<longleftrightarrow> or_arr (rec_errors rec) [] = [])\<close>
proof (cases "or_arr (rec_errors rec) [] = []")
  case True
  then show ?thesis
    unfolding errorsSection_def Let_def using detailsErrors_empty by simp
next
  case False
  then show ?thesis
    unfolding errorsSection_def Let_def
    using detailsErrors_nonempty [OF False] detailsErrors_no_placeholder [OF False no_div_rows(2)]
    by simp
qed

lemma renderLog_sections:
  \<open>\<exists>pre. renderLog rec = pre @ changesSection rec @ str ''\<newline>\<newline>      '' @ errorsSection rec
        @ str ''\<newline>    </div>\<newline>  ''\<close>
  unfolding renderLog_def changesSection_def errorsSection_def Let_def
  by (metis append.assoc)

text \<open>
  C5. The output of \<open>renderLog\<close> ends with the changes section, a separator, the errors
  section and the closing of the outer element. The changes section opens with the tag
  \<^verbatim>\<open><details style="margin-top:10px" open>\<close> and contains a \<^verbatim>\<open><table>\<close> exactly when
  \<open>changes\<close> is non-empty; it opens with \<^verbatim>\<open><details style="margin-top:10px" >\<close> (no
  \<open>open\<close>) and contains the placeholder exactly when \<open>changes\<close> is empty, missing or \<open>null\<close>.
  The errors section follows the same rule on \<open>errors\<close>, whatever \<open>changes\<close> is.
\<close>

theorem sections_open_iff_nonempty:
  \<open>(\<exists>pre. renderLog rec = pre @ changesSection rec @ str ''\<newline>\<newline>      '' @ errorsSection rec
        @ str ''\<newline>    </div>\<newline>  '')
   \<and> (prefix (str ''<details style="margin-top:10px" open>'') (changesSection rec) \<longleftrightarrow> or_arr (rec_changes rec) [] \<noteq> [])
   \<and> (prefix (str ''<details style="margin-top:10px" >'') (changesSection rec) \<longleftrightarrow> or_arr (rec_changes rec) [] = [])
   \<and> (sublist (str ''<table>'') (changesSection rec) \<longleftrightarrow> or_arr (rec_changes rec) [] \<noteq> [])
   \<and> (sublist (str ''<div class="small" style="margin-top:6px">'' @ ko_no_changes @ str ''</div>'') (changesSection rec)
        \<longleftrightarrow> or_arr (rec_changes rec) [] = [])
   \<and> (prefix (str ''<details style="margin-top:10px" open>'') (errorsSection rec) \<longleftrightarrow> or_arr (rec_errors rec) [] \<noteq> [])
   \<and> (prefix (str ''<details style="margin-top:10px" >'') (errorsSection rec) \<longleftrightarrow> or_arr (rec_errors rec) [] = [])
   \<and> (sublist (str ''<table>'') (errorsSection rec) \<longleftrightarrow> or_arr (rec_errors rec) [] \<noteq> [])
   \<and> (sublist (str ''<div class="small" style="margin-top:6px">'' @ ko_no_errors @ str ''</div>'') (errorsSection rec)
        \<longleftrightarrow> or_arr (rec_errors rec) [] = [])\<close>
  using renderLog_sections [of rec] changesSection_cases [of rec] errorsSection_cases [of rec]
  by blast

text \<open>
  The record of scenario A renders both sections closed and without a table; a record with
  one change and one error renders both open, each with its table.
\<close>

theorem sections_open_iff_nonempty_witness:
  \<open>prefix (str ''<details style="margin-top:10px" >'') (changesSection sample_record)
   \<and> \<not> sublist (str ''<table>'') (changesSection sample_record)
   \<and> prefix (str ''<details style="margin-top:10px" >'') (errorsSection sample_record)
   \<and> \<not> sublist (str ''<table>'') (errorsSection sample_record)
   \<and> prefix (str ''<details style="margin-top:10px" open>'') (changesSection busy_record)
   \<and> sublist (str ''<table>'') (changesSection busy_record)
   \<and> prefix (str ''<details style="margin-top:10px" open>'') (errorsSection busy_record)
   \<and> sublist (str ''<table>'') (errorsSection busy_record)\<close>
  using sections_open_iff_nonempty [of sample_record] sections_open_iff_nonempty [of busy_record]
  by (simp add: sample_record_def busy_record_def or_arr_def)

section \<open>Every rendered field is escaped\<close>

lemma esc_or_str: "esc (Val (or_str x [])) = esc x"
  by (simp add: esc_def or_str_def nullish_or_def split: nullable.splits)

lemma sublist_mid: "sublist x m \<Longrightarrow> sublist x (p @ m @ q)"
  unfolding sublist_def by (metis append.assoc)

lemma rowItem_escaped:
  \<open>rowItem it = str ''<tr><td>'' @ esc (i_code it) @ str ''</td><td>'' @ esc (i_title it)
     @ str ''</td><td class="mono">'' @ esc (i_query it) @ str ''</td></tr>''\<close>
  by (simp add: rowItem_def esc_or_str)

lemma rowChange_escaped:
  \<open>rowChange c =
     str ''\<newline>    <tr>\<newline>      <td>'' @ esc (c_code c)
     @ str ''</td>\<newline>      <td>'' @ esc (c_title c)
     @ str ''</td>\<newline>      <td>'' @ esc (c_noticeNo c)
     @ str ''</td>\<newline>      <td>'' @ esc (c_announceDate c)
     @ str ''</td>\<newline>      <td>'' @ esc (c_effectiveDate c)
     @ str ''</td>\<newline>      <td>'' @ esc (c_reason c)
     @ str ''</td>\<newline>      <td>'' @ join (str '' '') (map refLink (or_arr (c_refs c) []))
     @ str ''</td>\<newline>    </tr>\<newline>  ''\<close>
  by (simp add: rowChange_def esc_or_str)

lemma rowError_escaped:
  \<open>rowError e =
     str ''\<newline>    <tr>\<newline>      <td>'' @ esc (e_code e)
     @ str ''</td>\<newline>      <td>'' @ esc (e_title e)
     @ str ''</td>\<newline>      <td>'' @ esc (e_where e)
     @ str ''</td>\<newline>      <td>'' @ esc (e_kind e)
     @ str ''</td>\<newline>      <td>'' @ esc (e_status e)
     @ str ''</td>\<newline>      <td>'' @ esc (e_contentType e)
     @ str ''</td>\<newline>      <td title="'' @ esc (e_head e)
     @ str ''">'' @ esc (Val (take 60 (nullish_or (e_head e) [])))
     @ (if length (nullish_or (e_head e) []) > 60 then [0x2026] else [])
     @ str ''</td>\<newline>    </tr>\<newline>  ''\<close>
proof -
  have h: "or_str (e_head e) [] = nullish_or (e_head e) []"
    by (simp add: or_str_def nullish_or_def split: nullable.splits)
  have t: "esc (Val (nullish_or (e_head e) [])) = esc (e_head e)"
    using esc_or_str [of "e_head e"] by (simp add: h)
  show ?thesis
    by (simp add: rowError_def esc_or_str h t ellipsis_def)
qed

lemma refLink_escaped:
  \<open>refLink x =
     (if truthy_str (url x)
      then str ''<a href="'' @ esc (url x) @ str ''" target="_blank" rel="noreferrer">'' @ ko_original @ str ''</a>''
      else [])\<close>
  by (simp add: refLink_def)

lemma renderList_escaped:
  \<open>renderList items =
     (if or_arr items [] = [] then str ''<div class="small">'' @ ko_no_items @ str ''</div>''
      else str ''\<newline>    <table>\<newline>      <thead><tr><th>'' @ ko_code @ str ''</th><th>''
           @ ko_title @ str ''</th><th>'' @ ko_query
           @ str ''</th></tr></thead>\<newline>      <tbody>\<newline>        ''
           @ concat (map rowItem (or_arr items []))
           @ str ''\<newline>      </tbody>\<newline>    </table>\<newline>  '')\<close>
  by (simp add: renderList_def join_Nil_sep)

lemma renderLog_header:
  \<open>prefix
     (str ''\<newline>    <div style="margin-top:10px">\<newline>      <div class="row">\<newline>        <span class="pill">''
      @ esc (rec_date rec)
      @ str ''</span>\<newline>        <span class="pill">'' @ esc (rec_result rec)
      @ str ''</span>\<newline>        <span class="pill">changes '' @ show_nat (length (or_arr (rec_changes rec) []))
      @ str ''</span>\<newline>        <span class="pill">errors '' @ show_nat (length (or_arr (rec_errors rec) []))
      @ str ''</span>\<newline>        <span class="pill">mock '' @ (if isMock rec then str ''true'' else str ''false'')
      @ str ''</span>\<newline>      </div>\<newline>      <div class="small" style="margin-top:6px">''
      @ esc (rec_summary rec)
      @ str ''</div>\<newline>\<newline>      '')
     (renderLog rec)\<close>
  by (simp add: renderLog_def Let_def esc_or_str)

lemma tbody_changes:
  assumes "cs \<noteq> []"
  shows \<open>sublist (str ''<tbody>'' @ r @ str ''</tbody>'') (detailsChanges cs r)\<close>
proof -
  have a: \<open>str ''</th>\<newline>            </tr></thead>\<newline>            <tbody>''
      = str ''</th>\<newline>            </tr></thead>\<newline>            '' @ str ''<tbody>''\<close>
    and b: \<open>str ''</tbody>\<newline>          </table>\<newline>        ''
      = str ''</tbody>'' @ str ''\<newline>          </table>\<newline>        ''\<close>
    by (simp_all add: str_def)
  show ?thesis
    unfolding detailsChanges_def a b sublist_def using assms
    by (simp del: append_assoc add: append_assoc [symmetric]) (metis append.assoc)
qed

lemma tbody_errors:
  assumes "es \<noteq> []"
  shows \<open>sublist (str ''<tbody>'' @ r @ str ''</tbody>'') (detailsErrors es r)\<close>
proof -
  have a: \<open>str ''</th><th>HTTP</th><th>Content-Type</th><th>HEAD</th>\<newline>            </tr></thead>\<newline>            <tbody>''
      = str ''</th><th>HTTP</th><th>Content-Type</th><th>HEAD</th>\<newline>            </tr></thead>\<newline>            '' @ str ''<tbody>''\<close>
    and b: \<open>str ''</tbody>\<newline>          </table>\<newline>        ''
      = str ''</tbody>'' @ str ''\<newline>          </table>\<newline>        ''\<close>
    by (simp_all add: str_def)
  show ?thesis
    unfolding detailsErrors_def a b sublist_def using assms
    by (simp del: append_assoc add: append_assoc [symmetric]) (metis append.assoc)
qed

lemma renderLog_escaped:
  \<open>renderLog rec =
     str ''\<newline>    <div style="margin-top:10px">\<newline>      <div class="row">\<newline>        <span class="pill">''
     @ esc (rec_date rec)
     @ str ''</span>\<newline>        <span class="pill">'' @ esc (rec_result rec)
     @ str ''</span>\<newline>        <span class="pill">changes '' @ show_nat (length (or_arr (rec_changes rec) []))
     @ str ''</span>\<newline>        <span class="pill">errors '' @ show_nat (length (or_arr (rec_errors rec) []))
     @ str ''</span>\<newline>        <span class="pill">mock '' @ (if isMock rec then str ''true'' else str ''false'')
     @ str ''</span>\<newline>      </div>\<newline>      <div class="small" style="margin-top:6px">''
     @ esc (rec_summary rec)
     @ str ''</div>\<newline>\<newline>      ''
     @ changesSection rec
     @ str ''\<newline>\<newline>      ''
     @ errorsSection rec
     @ str ''\<newline>    </div>\<newline>  ''\<close>
  by (simp add: renderLog_def changesSection_def errorsSection_def Let_def esc_or_str)

lemma changesSection_escaped:
  \<open>changesSection rec =
     (if or_arr (rec_changes rec) [] = []
      then str ''<details style="margin-top:10px" >\<newline>        <summary>'' @ ko_changes_detail
           @ str ''</summary>\<newline>        <div class="small" style="margin-top:6px">'' @ ko_no_changes
           @ str ''</div>\<newline>      </details>''
      else str ''<details style="margin-top:10px" open>\<newline>        <summary>'' @ ko_changes_detail
           @ str ''</summary>\<newline>        \<newline>          <table>\<newline>            <thead><tr>\<newline>              <th>''
           @ ko_code @ str ''</th><th>'' @ ko_title @ str ''</th><th>'' @ ko_notice_no
           @ str ''</th><th>'' @ ko_announce_date @ str ''</th><th>'' @ ko_effective_date
           @ str ''</th><th>'' @ ko_reason @ str ''</th><th>'' @ ko_original
           @ str ''</th>\<newline>            </tr></thead>\<newline>            <tbody>''
           @ concat (map rowChange (or_arr (rec_changes rec) []))
           @ str ''</tbody>\<newline>          </table>\<newline>        \<newline>      </details>'')\<close>
  by (simp add: changesSection_def detailsChanges_def Let_def join_Nil_sep str_def)

lemma errorsSection_escaped:
  \<open>errorsSection rec =
     (if or_arr (rec_errors rec) [] = []
      then str ''<details style="margin-top:10px" >\<newline>        <summary>'' @ ko_errors_diag
           @ str ''</summary>\<newline>        <div class="small" style="margin-top:6px">'' @ ko_no_errors
           @ str ''</div>\<newline>      </details>''
      else str ''<details style="margin-top:10px" open>\<newline>        <summary>'' @ ko_errors_diag
           @ str ''</summary>\<newline>        \<newline>          <table>\<newline>            <thead><tr>\<newline>              <th>''
           @ ko_code @ str ''</th><th>'' @ ko_title @ str ''</th><th>'' @ ko_where
           @ str ''</th><th>'' @ ko_kind
           @ str ''</th><th>HTTP</th><th>Content-Type</th><th>HEAD</th>\<newline>            </tr></thead>\<newline>            <tbody>''
           @ concat (map rowError (or_arr (rec_errors rec) []))
           @ str ''</tbody>\<newline>          </table>\<newline>        \<newline>      </details>'')\<close>
  by (simp add: errorsSection_def detailsErrors_def Let_def join_Nil_sep str_def)

lemmas field_eval = esc_def esc_char_def nullish_or_def or_str_def or_arr_def truthy_str_def refLink_def
  isMock_def show_nat.simps str_def ko_defs

text \<open>
  C2. Every string of a record or of an inventory reaches the output of \<open>renderLog\<close> and of
  \<open>renderList\<close> as \<open>esc\<close> of it, and in no other form.
  \<^item> The output of \<open>renderLog\<close> is the fixed header filled with \<open>esc\<close> of the date, of the
    result and of the summary (and the two counts and the mock flag), followed by the
    changes section, the errors section and the closing of the outer element, and nothing
    else; a section is its fixed placeholder, or its fixed table around the rows of all
    changes (errors), in order.
  \<^item> A row of the changes table, of the errors table and of an inventory is the fixed row
    template filled with \<open>esc\<close> of each field; a reference with a URL is the fixed link filled
    with \<open>esc\<close> of the URL; the output of \<open>renderList\<close> is the placeholder or the fixed table
    around the rows of all items.
  \<^item> \<open>esc\<close> rewrites a string code unit by code unit: each of the five characters
    \<^verbatim>\<open>& < > " '\<close> becomes its entity \<^verbatim>\<open>&amp; &lt; &gt; &quot; &#39;\<close>, every other code
    unit stays.
  \<^item> Whatever the strings are, the markup characters \<^verbatim>\<open>< > " '\<close> of the two outputs are
    exactly those of the outputs for the same data with the five characters replaced by
    underscores in every string field, and every ampersand of the two outputs begins one
    of the five entities: no such character of the data reaches the output as it is, in
    any field.
\<close>

theorem render_escapes_every_field:
  \<open>filter markup (renderLog rec) = filter markup (renderLog (defuse_record rec))
   \<and> amp_ok (renderLog rec)
   \<and> filter markup (renderList items) = filter markup (renderList (defuse_list defuse_item items))
   \<and> amp_ok (renderList items)
   \<and> esc (Val (s @ t)) = esc (Val s) @ esc (Val t)
   \<and> esc (Val [ch]) =
        (if ch = 0x26 then str ''&amp;'' else if ch = 0x3C then str ''&lt;'' else if ch = 0x3E then str ''&gt;''
         else if ch = 0x22 then str ''&quot;'' else if ch = 0x27 then str ''&#39;'' else [ch])
   \<and> prefix
        (str ''\<newline>    <div style="margin-top:10px">\<newline>      <div class="row">\<newline>        <span class="pill">''
         @ esc (rec_date rec)
         @ str ''</span>\<newline>        <span class="pill">'' @ esc (rec_result rec)
         @ str ''</span>\<newline>        <span class="pill">changes '' @ show_nat (length (or_arr (rec_changes rec) []))
         @ str ''</span>\<newline>        <span class="pill">errors '' @ show_nat (length (or_arr (rec_errors rec) []))
         @ str ''</span>\<newline>        <span class="pill">mock '' @ (if isMock rec then str ''true'' else str ''false'')
         @ str ''</span>\<newline>      </div>\<newline>      <div class="small" style="margin-top:6px">''
         @ esc (rec_summary rec)
         @ str ''</div>\<newline>\<newline>      '')
        (renderLog rec)
   \<and> (or_arr (rec_changes rec) [] \<noteq> [] \<longrightarrow>
        sublist (str ''<tbody>'' @ concat (map rowChange (or_arr (rec_changes rec) [])) @ str ''</tbody>'')
          (renderLog rec))
   \<and> (or_arr (rec_errors rec) [] \<noteq> [] \<longrightarrow>
        sublist (str ''<tbody>'' @ concat (map rowError (or_arr (rec_errors rec) [])) @ str ''</tbody>'')
          (renderLog rec))
   \<and> rowChange c =
        str ''\<newline>    <tr>\<newline>      <td>'' @ esc (c_code c)
        @ str ''</td>\<newline>      <td>'' @ esc (c_title c)
        @ str ''</td>\<newline>      <td>'' @ esc (c_noticeNo c)
        @ str ''</td>\<newline>      <td>'' @ esc (c_announceDate c)
        @ str ''</td>\<newline>      <td>'' @ esc (c_effectiveDate c)
        @ str ''</td>\<newline>      <td>'' @ esc (c_reason c)
        @ str ''</td>\<newline>      <td>'' @ join (str '' '') (map refLink (or_arr (c_refs c) []))
        @ str ''</td>\<newline>    </tr>\<newline>  ''
   \<and> refLink x =
        (if truthy_str (url x)
         then str ''<a href="'' @ esc (url x) @ str ''" target="_blank" rel="noreferrer">'' @ ko_original @ str ''</a>''
         else [])
   \<and> rowError e =
        str ''\<newline>    <tr>\<newline>      <td>'' @ esc (e_code e)
        @ str ''</td>\<newline>      <td>'' @ esc (e_title e)
        @ str ''</td>\<newline>      <td>'' @ esc (e_where e)
        @ str ''</td>\<newline>      <td>'' @ esc (e_kind e)
        @ str ''</td>\<newline>      <td>'' @ esc (e_status e)
        @ str ''</td>\<newline>      <td>'' @ esc (e_contentType e)
        @ str ''</td>\<newline>      <td title="'' @ esc (e_head e)
        @ str ''">'' @ esc (Val (take 60 (nullish_or (e_head e) [])))
        @ (if length (nullish_or (e_head e) []) > 60 then [0x2026] else [])
        @ str ''</td>\<newline>    </tr>\<newline>  ''
   \<and> renderList items =
        (if or_arr items [] = [] then str ''<div class="small">'' @ ko_no_items @ str ''</div>''
         else str ''\<newline>    <table>\<newline>      <thead><tr><th>'' @ ko_code @ str ''</th><th>''
              @ ko_title @ str ''</th><th>'' @ ko_query
              @ str ''</th></tr></thead>\<newline>      <tbody>\<newline>        ''
              @ concat (map rowItem (or_arr items []))
              @ str ''\<newline>      </tbody>\<newline>    </table>\<newline>  '')
   \<and> rowItem it =
        str ''<tr><td>'' @ esc (i_code it) @ str ''</td><td>'' @ esc (i_title it)
        @ str ''</td><td class="mono">'' @ esc (i_query it) @ str ''</td></tr>''
   \<and> renderLog rec =
        str ''\<newline>    <div style="margin-top:10px">\<newline>      <div class="row">\<newline>        <span class="pill">''
        @ esc (rec_date rec)
        @ str ''</span>\<newline>        <span class="pill">'' @ esc (rec_result rec)
        @ str ''</span>\<newline>        <span class="pill">changes '' @ show_nat (length (or_arr (rec_changes rec) []))
        @ str ''</span>\<newline>        <span class="pill">errors '' @ show_nat (length (or_arr (rec_errors rec) []))
        @ str ''</span>\<newline>        <span class="pill">mock '' @ (if isMock rec then str ''true'' else str ''false'')
        @ str ''</span>\<newline>      </div>\<newline>      <div class="small" style="margin-top:6px">''
        @ esc (rec_summary rec)
        @ str ''</div>\<newline>\<newline>      ''
        @ changesSection rec
        @ str ''\<newline>\<newline>      ''
        @ errorsSection rec
        @ str ''\<newline>    </div>\<newline>  ''
   \<and> changesSection rec =
        (if or_arr (rec_changes rec) [] = []
         then str ''<details style="margin-top:10px" >\<newline>        <summary>'' @ ko_changes_detail
              @ str ''</summary>\<newline>        <div class="small" style="margin-top:6px">'' @ ko_no_changes
              @ str ''</div>\<newline>      </details>''
         else str ''<details style="margin-top:10px" open>\<newline>        <summary>'' @ ko_changes_detail
              @ str ''</summary>\<newline>        \<newline>          <table>\<newline>            <thead><tr>\<newline>              <th>''
              @ ko_code @ str ''</th><th>'' @ ko_title @ str ''</th><th>'' @ ko_notice_no
              @ str ''</th><th>'' @ ko_announce_date @ str ''</th><th>'' @ ko_effective_date
              @ str ''</th><th>'' @ ko_reason @ str ''</th><th>'' @ ko_original
              @ str ''</th>\<newline>            </tr></thead>\<newline>            <tbody>''
              @ concat (map rowChange (or_arr (rec_changes rec) []))
              @ str ''</tbody>\<newline>          </table>\<newline>        \<newline>      </details>'')
   \<and> errorsSection rec =
        (if or_arr (rec_errors rec) [] = []
         then str ''<details style="margin-top:10px" >\<newline>        <summary>'' @ ko_errors_diag
              @ str ''</summary>\<newline>        <div class="small" style="margin-top:6px">'' @ ko_no_errors
              @ str ''</div>\<newline>      </details>''
         else str ''<details style="margin-top:10px" open>\<newline>        <summary>'' @ ko_errors_diag
              @ str ''</summary>\<newline>        \<newline>          <table>\<newline>            <thead><tr>\<newline>              <th>''
              @ ko_code @ str ''</th><th>'' @ ko_title @ str ''</th><th>'' @ ko_where
              @ str ''</th><th>'' @ ko_kind
              @ str ''</th><th>HTTP</th><th>Content-Type</th><th>HEAD</th>\<newline>            </tr></thead>\<newline>            <tbody>''
              @ concat (map rowError (or_arr (rec_errors rec) []))
              @ str ''</tbody>\<newline>          </table>\<newline>        \<newline>      </details>'')\<close>
proof -
  have old: \<open>filter markup (renderLog rec) = filter markup (renderLog (defuse_record rec))
     \<and> amp_ok (renderLog rec)
     \<and> filter markup (renderList items) = filter markup (renderList (defuse_list defuse_item items))
     \<and> amp_ok (renderList items)
     \<and> esc (Val (s @ t)) = esc (Val s) @ esc (Val t)
     \<and> esc (Val [ch]) =
        (if ch = 0x26 then str ''&amp;'' else if ch = 0x3C then str ''&lt;'' else if ch = 0x3E then str ''&gt;''
         else if ch = 0x22 then str ''&quot;'' else if ch = 0x27 then str ''&#39;'' else [ch])\<close>
    by (simp add: markup_renderLog markup_renderList amp_ok_renderLog amp_ok_renderList esc_append esc_single
          esc_char_def)
  have cs: \<open>or_arr (rec_changes rec) [] \<noteq> [] \<longrightarrow>
        sublist (str ''<tbody>'' @ concat (map rowChange (or_arr (rec_changes rec) [])) @ str ''</tbody>'')
          (renderLog rec)\<close>
  proof
    assume ne: "or_arr (rec_changes rec) [] \<noteq> []"
    obtain pre where r: \<open>renderLog rec = pre @ changesSection rec @ (str ''\<newline>\<newline>      '' @ errorsSection rec
        @ str ''\<newline>    </div>\<newline>  '')\<close>
      using renderLog_sections [of rec] by auto
    have \<open>sublist (str ''<tbody>'' @ concat (map rowChange (or_arr (rec_changes rec) [])) @ str ''</tbody>'')
        (changesSection rec)\<close>
      using tbody_changes [OF ne] by (simp add: changesSection_def Let_def join_Nil_sep)
    then show \<open>sublist (str ''<tbody>'' @ concat (map rowChange (or_arr (rec_changes rec) [])) @ str ''</tbody>'')
          (renderLog rec)\<close>
      unfolding r by (rule sublist_mid)
  qed
  have es: \<open>or_arr (rec_errors rec) [] \<noteq> [] \<longrightarrow>
        sublist (str ''<tbody>'' @ concat (map rowError (or_arr (rec_errors rec) [])) @ str ''</tbody>'')
          (renderLog rec)\<close>
  proof
    assume ne: "or_arr (rec_errors rec) [] \<noteq> []"
    obtain pre where r: \<open>renderLog rec = (pre @ changesSection rec @ str ''\<newline>\<newline>      '') @ errorsSection rec
        @ str ''\<newline>    </div>\<newline>  ''\<close>
      using renderLog_sections [of rec] by auto
    have \<open>sublist (str ''<tbody>'' @ concat (map rowError (or_arr (rec_errors rec) [])) @ str ''</tbody>'')
        (errorsSection rec)\<close>
      using tbody_errors [OF ne] by (simp add: errorsSection_def Let_def join_Nil_sep)
    then show \<open>sublist (str ''<tbody>'' @ concat (map rowError (or_arr (rec_errors rec) [])) @ str ''</tbody>'')
          (renderLog rec)\<close>
      unfolding r by (rule sublist_mid)
  qed
  from old cs es renderLog_header [of rec] rowChange_escaped [of c] refLink_escaped [of x]
    rowError_escaped [of e] renderList_escaped [of items] rowItem_escaped [of it]
    renderLog_escaped [of rec] changesSection_escaped [of rec] errorsSection_escaped [of rec]
  show ?thesis by blast
qed

text \<open>
  An inventory item titled \<^verbatim>\<open>A&B <1>\<close> is rendered with the title
  \<^verbatim>\<open>A&amp;B &lt;1&gt;\<close>. A record with one change (reason \<^verbatim>\<open>a<b\<close>, a reference whose URL
  has an ampersand, and a reference without URL) and one error is rendered with the header
  of its date, result and summary and with the rows of the change and of the error in their
  table bodies; the reason is shown as \<^verbatim>\<open>a&lt;b\<close> and the URL with \<^verbatim>\<open>&amp;\<close>.
\<close>

theorem render_escapes_every_field_witness:
  \<open>renderList (Val [sample_item]) =
     str ''\<newline>    <table>\<newline>      <thead><tr><th>'' @ ko_code @ str ''</th><th>'' @ ko_title
     @ str ''</th><th>'' @ ko_query @ str ''</th></tr></thead>\<newline>      <tbody>\<newline>        ''
     @ str ''<tr><td>NFPC 101</td><td>A&amp;B &lt;1&gt;</td><td class="mono"></td></tr>''
     @ str ''\<newline>      </tbody>\<newline>    </table>\<newline>  ''
   \<and> filter markup (renderList (Val [sample_item])) =
       filter markup (renderList (Val [\<lparr>i_code = Val (str ''NFPC 101''), i_title = Val (str ''A_B _1_''), i_query = Undefined\<rparr>]))
   \<and> amp_ok (renderList (Val [sample_item]))
   \<and> amp_ok (renderLog busy_record)
   \<and> filter markup (renderLog busy_record) = filter markup (renderLog (defuse_record busy_record))
   \<and> prefix
       (str ''\<newline>    <div style="margin-top:10px">\<newline>      <div class="row">\<newline>        <span class="pill">2024-02-02</span>\<newline>        <span class="pill">CHANGED</span>\<newline>        <span class="pill">changes 1</span>\<newline>        <span class="pill">errors 1</span>\<newline>        <span class="pill">mock false</span>\<newline>      </div>\<newline>      <div class="small" style="margin-top:6px">1 change</div>\<newline>\<newline>      '')
       (renderLog busy_record)
   \<and> sublist (str ''<tbody>'' @ rowChange sample_change @ str ''</tbody>'') (renderLog busy_record)
   \<and> sublist (str ''<tbody>'' @ rowError long_error @ str ''</tbody>'') (renderLog busy_record)
   \<and> rowChange sample_change =
       str ''\<newline>    <tr>\<newline>      <td>NFPC 103</td>\<newline>      <td>Sprinkler</td>\<newline>      <td></td>\<newline>      <td>2024-01-01</td>\<newline>      <td></td>\<newline>      <td>a&lt;b</td>\<newline>      <td><a href="https://example.org/?a=1&amp;b=2" target="_blank" rel="noreferrer">''
       @ ko_original @ str ''</a> </td>\<newline>    </tr>\<newline>  ''\<close>
proof -
  note th = render_escapes_every_field [where rec = busy_record and items = "Val [sample_item]"
      and c = sample_change and e = long_error and it = sample_item and x = "\<lparr>url = Undefined\<rparr>"
      and s = "[]" and t = "[]" and ch = 0]
  have d: "defuse_list defuse_item (Val [sample_item])
      = Val [\<lparr>i_code = Val (str ''NFPC 101''), i_title = Val (str ''A_B _1_''), i_query = Undefined\<rparr>]"
    by (simp add: defuse_list_def defuse_item_def defuse_def defuse_char_def markup_def sample_item_def str_def)
  have l: "or_arr (rec_changes busy_record) [] = [sample_change]"
    "or_arr (rec_errors busy_record) [] = [long_error]"
    "or_arr (Val [sample_item]) [] = [sample_item]"
    by (simp_all add: or_arr_def busy_record_def)
  have h: "esc (rec_date busy_record) = str ''2024-02-02''" "esc (rec_result busy_record) = str ''CHANGED''"
    "esc (rec_summary busy_record) = str ''1 change''" "isMock busy_record = False"
    "show_nat (Suc 0) = str ''1''"
    by (simp_all add: busy_record_def field_eval)
  have c: \<open>esc (c_code sample_change) = str ''NFPC 103''\<close> \<open>esc (c_title sample_change) = str ''Sprinkler''\<close>
    \<open>esc (c_noticeNo sample_change) = []\<close> \<open>esc (c_announceDate sample_change) = str ''2024-01-01''\<close>
    \<open>esc (c_effectiveDate sample_change) = []\<close> \<open>esc (c_reason sample_change) = str ''a&lt;b''\<close>
    \<open>join (str '' '') (map refLink (or_arr (c_refs sample_change) []))
       = str ''<a href="https://example.org/?a=1&amp;b=2" target="_blank" rel="noreferrer">'' @ ko_original @ str ''</a> ''\<close>
    by (simp_all add: sample_change_def field_eval)
  have i: \<open>esc (i_code sample_item) = str ''NFPC 101''\<close> \<open>esc (i_title sample_item) = str ''A&amp;B &lt;1&gt;''\<close>
    \<open>esc (i_query sample_item) = []\<close>
    by (simp_all add: sample_item_def field_eval)
  note p1 = th [THEN conjunct1]
  note p2 = th [THEN conjunct2, THEN conjunct1]
  note p3 = th [THEN conjunct2, THEN conjunct2, THEN conjunct1]
  note p4 = th [THEN conjunct2, THEN conjunct2, THEN conjunct2, THEN conjunct1]
  note p7 = th [THEN conjunct2, THEN conjunct2, THEN conjunct2, THEN conjunct2, THEN conjunct2,
      THEN conjunct2, THEN conjunct1]
  note p8 = th [THEN conjunct2, THEN conjunct2, THEN conjunct2, THEN conjunct2, THEN conjunct2,
      THEN conjunct2, THEN conjunct2, THEN conjunct1]
  note p9 = th [THEN conjunct2, THEN conjunct2, THEN conjunct2, THEN conjunct2, THEN conjunct2,
      THEN conjunct2, THEN conjunct2, THEN conjunct2, THEN conjunct1]
  note p10 = th [THEN conjunct2, THEN conjunct2, THEN conjunct2, THEN conjunct2, THEN conjunct2,
      THEN conjunct2, THEN conjunct2, THEN conjunct2, THEN conjunct2, THEN conjunct1]
  note p13 = th [THEN conjunct2, THEN conjunct2, THEN conjunct2, THEN conjunct2, THEN conjunct2,
      THEN conjunct2, THEN conjunct2, THEN conjunct2, THEN conjunct2, THEN conjunct2, THEN conjunct2,
      THEN conjunct2, THEN conjunct1]
  note p14 = th [THEN conjunct2, THEN conjunct2, THEN conjunct2, THEN conjunct2, THEN conjunct2,
      THEN conjunct2, THEN conjunct2, THEN conjunct2, THEN conjunct2, THEN conjunct2, THEN conjunct2,
      THEN conjunct2, THEN conjunct2, THEN conjunct1]
  have w1: \<open>renderList (Val [sample_item]) =
     str ''\<newline>    <table>\<newline>      <thead><tr><th>'' @ ko_code @ str ''</th><th>'' @ ko_title
     @ str ''</th><th>'' @ ko_query @ str ''</th></tr></thead>\<newline>      <tbody>\<newline>        ''
     @ str ''<tr><td>NFPC 101</td><td>A&amp;B &lt;1&gt;</td><td class="mono"></td></tr>''
     @ str ''\<newline>      </tbody>\<newline>    </table>\<newline>  ''\<close>
  proof -
    have \<open>rowItem sample_item = str ''<tr><td>NFPC 101</td><td>A&amp;B &lt;1&gt;</td><td class="mono"></td></tr>''\<close>
      unfolding p14 i by (simp add: str_def)
    then show ?thesis
      unfolding p13 l by simp
  qed
  have w2: \<open>filter markup (renderList (Val [sample_item])) =
       filter markup (renderList (Val [\<lparr>i_code = Val (str ''NFPC 101''), i_title = Val (str ''A_B _1_''), i_query = Undefined\<rparr>]))\<close>
    using p3 unfolding d .
  have w6: \<open>prefix
       (str ''\<newline>    <div style="margin-top:10px">\<newline>      <div class="row">\<newline>        <span class="pill">2024-02-02</span>\<newline>        <span class="pill">CHANGED</span>\<newline>        <span class="pill">changes 1</span>\<newline>        <span class="pill">errors 1</span>\<newline>        <span class="pill">mock false</span>\<newline>      </div>\<newline>      <div class="small" style="margin-top:6px">1 change</div>\<newline>\<newline>      '')
       (renderLog busy_record)\<close>
  proof -
    have \<open>str ''\<newline>    <div style="margin-top:10px">\<newline>      <div class="row">\<newline>        <span class="pill">''
         @ str ''2024-02-02''
         @ str ''</span>\<newline>        <span class="pill">'' @ str ''CHANGED''
         @ str ''</span>\<newline>        <span class="pill">changes '' @ str ''1''
         @ str ''</span>\<newline>        <span class="pill">errors '' @ str ''1''
         @ str ''</span>\<newline>        <span class="pill">mock '' @ str ''false''
         @ str ''</span>\<newline>      </div>\<newline>      <div class="small" style="margin-top:6px">''
         @ str ''1 change''
         @ str ''</div>\<newline>\<newline>      ''
       = str ''\<newline>    <div style="margin-top:10px">\<newline>      <div class="row">\<newline>        <span class="pill">2024-02-02</span>\<newline>        <span class="pill">CHANGED</span>\<newline>        <span class="pill">changes 1</span>\<newline>        <span class="pill">errors 1</span>\<newline>        <span class="pill">mock false</span>\<newline>      </div>\<newline>      <div class="small" style="margin-top:6px">1 change</div>\<newline>\<newline>      ''\<close>
      by (simp add: str_def)
    then show ?thesis
      using p7 by (simp only: l h list.size if_False One_nat_def add_0 plus_nat.add_0 add_Suc)
  qed
  have w7: \<open>sublist (str ''<tbody>'' @ rowChange sample_change @ str ''</tbody>'') (renderLog busy_record)\<close>
    using p8 by (simp add: l)
  have w8: \<open>sublist (str ''<tbody>'' @ rowError long_error @ str ''</tbody>'') (renderLog busy_record)\<close>
    using p9 by (simp add: l)
  have w9: \<open>rowChange sample_change =
       str ''\<newline>    <tr>\<newline>      <td>NFPC 103</td>\<newline>      <td>Sprinkler</td>\<newline>      <td></td>\<newline>      <td>2024-01-01</td>\<newline>      <td></td>\<newline>      <td>a&lt;b</td>\<newline>      <td><a href="https://example.org/?a=1&amp;b=2" target="_blank" rel="noreferrer">''
       @ ko_original @ str ''</a> </td>\<newline>    </tr>\<newline>  ''\<close>
    unfolding p10 c by (simp add: str_def)
  from w1 w2 p4 p2 p1 w6 w7 w8 w9 show ?thesis
    by blast
qed

section \<open>Properties of the orchestrator\<close>

lemma indicator_pill:
  assumes "ty = str ''ok'' \<or> ty = str ''warn'' \<or> ty = str ''bad''"
  shows "indicator (pill el ty) = [ty]"
proof -
  let ?removed = "filter (\<lambda>t. t \<noteq> str ''ok'' \<and> t \<noteq> str ''warn'' \<and> t \<noteq> str ''bad'') (classList el)"
  have ne: "ty \<noteq> []" using assms by (auto simp: str_def)
  have notin: "ty \<notin> set ?removed" using assms by auto
  have none: "filter (\<lambda>t. t = str ''ok'' \<or> t = str ''warn'' \<or> t = str ''bad'') ?removed = []"
    by (auto simp: filter_empty_conv)
  show ?thesis
    using assms ne notin none by (simp add: indicator_def pill_def Let_def)
qed

lemma pill_textContent [simp]: "textContent (pill el ty) = textContent el"
  by (simp add: pill_def Let_def)

lemma indicator_textContent [simp]: "indicator (el\<lparr>textContent := t\<rparr>) = indicator el"
  by (simp add: indicator_def)

lemma onError_sel [simp]:
  "indicator (runPill (onError err q)) = [str ''bad'']"
  "textContent (runPill (onError err q)) = ko_load_failed"
  "textContent (statusText (onError err q)) = String err"
  "console (onError err q) = console q @ [err]"
  "logHtml (onError err q) = logHtml q"
  "modePill (onError err q) = modePill q"
  "changesPill (onError err q) = changesPill q"
  "errorsPill (onError err q) = errorsPill q"
  "nfpcList (onError err q) = nfpcList q"
  "nftcList (onError err q) = nftcList q"
  by (simp_all add: onError_def indicator_pill)

lemma noData_sel [simp]:
  "indicator (runPill (noData q)) = [str ''warn'']"
  "textContent (runPill (noData q)) = ko_no_data"
  "textContent (statusText (noData q)) = msg_no_records"
  "console (noData q) = console q"
  "logHtml (noData q) = logHtml q"
  "modePill (noData q) = modePill q"
  "changesPill (noData q) = changesPill q"
  "errorsPill (noData q) = errorsPill q"
  "nfpcList (noData q) = nfpcList q"
  "nftcList (noData q) = nftcList q"
  by (simp_all add: noData_def indicator_pill)

lemma showRecord_sel [simp]:
  "console (showRecord r q) = console q"
  "nfpcList (showRecord r q) = nfpcList q"
  "nftcList (showRecord r q) = nftcList q"
  "logHtml (showRecord r q) = renderLog r"
  by (simp_all add: showRecord_def Let_def)

lemma showRecord_pills [simp]:
  "indicator (modePill (showRecord r q)) = [if isMock r then str ''warn'' else str ''ok'']"
  "textContent (modePill (showRecord r q)) = (if isMock r then str ''MODE: MOCK'' else str ''MODE: LIVE'')"
  "indicator (changesPill (showRecord r q)) = [if length (or_arr (rec_changes r) []) \<noteq> 0 then str ''warn'' else str ''ok'']"
  "textContent (changesPill (showRecord r q)) = str ''CHANGES: '' @ show_nat (length (or_arr (rec_changes r) []))"
  "indicator (errorsPill (showRecord r q)) = [if length (or_arr (rec_errors r) []) \<noteq> 0 then str ''bad'' else str ''ok'']"
  "textContent (errorsPill (showRecord r q)) = str ''ERRORS: '' @ show_nat (length (or_arr (rec_errors r) []))"
  by (simp_all add: showRecord_def Let_def indicator_pill)

lemma main_keeps_pills:
  assumes "fetchJson fetch parse path_log = Inr data" and "firstRecord data = Inr (Some rec)"
  shows "modePill (main fetch parse p) = modePill (showRecord rec p)"
    and "changesPill (main fetch parse p) = changesPill (showRecord rec p)"
    and "errorsPill (main fetch parse p) = errorsPill (showRecord rec p)"
    and "logHtml (main fetch parse p) = renderLog rec"
  using assms
  by (auto simp: main_def tryLoad_def Let_def split: sum.splits)

lemma isMock_iff: "isMock rec \<longleftrightarrow> (\<exists>m. rec_meta rec = Val m \<and> mock m = Val True)"
  by (auto simp: isMock_def split: nullable.splits)

lemmas site_eval = serve_def ok_json_def not_found_def sample_eval

lemma fetch_samples:
  "fetchJson (serve (ok_json sample_log_body) b c) sample_parse path_log
     = Inr (PObj \<lparr>d_records = Val [Val sample_record], d_items = Undefined\<rparr>)"
  "fetchJson (serve (ok_json busy_log_body) b c) sample_parse path_log
     = Inr (PObj \<lparr>d_records = Val [Val busy_record], d_items = Undefined\<rparr>)"
  \<open>fetchJson (serve (ok_json (str ''{"records":[]}'')) b c) sample_parse path_log
     = Inr (PObj \<lparr>d_records = Val [], d_items = Undefined\<rparr>)\<close>
  "fetchJson (serve a (ok_json sample_items_body) c) sample_parse path_nfpc
     = Inr (PObj \<lparr>d_records = Undefined, d_items = Val [sample_item]\<rparr>)"
  "fetchJson (serve a b not_found) sample_parse path_nftc
     = Inl (Error (str ''HTTP 404 ../standards_nftc_test.json''))"
  \<open>fetchJson (serve a b (ok_json (str ''{"items":[]}''))) sample_parse path_nftc
     = Inr (PObj \<lparr>d_records = Undefined, d_items = Val []\<rparr>)\<close>
  by (simp_all add: site_eval show_nat.simps)

lemma firstRecord_samples:
  "firstRecord (PObj \<lparr>d_records = Val [Val r], d_items = Undefined\<rparr>) = Inr (Some r)"
  by (simp add: firstRecord_def)

subsection \<open>The failure path\<close>

text \<open>
  C3. When one of the three calls of \<open>fetchJson\<close> throws (the first, or the second after the
  first has returned, or the third after the first two have returned), the script ends in the
  page the handler makes of the page as it stood at the call: the run indicator shows
  \<open>bad\<close> with the failure label, the status text is \<open>String(err)\<close>, and nothing else is
  touched. The log and the mode, changes and errors indicators are as they were before the
  failing call, and neither inventory list is rendered.
\<close>

theorem fetch_error_is_caught:
  assumes "fetchJson fetch parse path_log = Inl err
     \<or> (fetchJson fetch parse path_log = Inr data \<and> firstRecord data = Inr rec
        \<and> (fetchJson fetch parse path_nfpc = Inl err
           \<or> (fetchJson fetch parse path_nfpc = Inr nfpc \<and> fetchJson fetch parse path_nftc = Inl err)))"
  shows "let before = (case fetchJson fetch parse path_log of
                         Inl _ \<Rightarrow> p
                       | Inr _ \<Rightarrow> (case rec of None \<Rightarrow> noData p | Some r \<Rightarrow> showRecord r p));
             q = main fetch parse p
         in q = onError err before
          \<and> indicator (runPill q) = [str ''bad''] \<and> textContent (runPill q) = ko_load_failed
          \<and> textContent (statusText q) = String err
          \<and> logHtml q = logHtml before \<and> modePill q = modePill before
          \<and> changesPill q = changesPill before \<and> errorsPill q = errorsPill before
          \<and> nfpcList q = nfpcList p \<and> nftcList q = nftcList p"
proof -
  have "main fetch parse p = onError err (case fetchJson fetch parse path_log of
                         Inl _ \<Rightarrow> p
                       | Inr _ \<Rightarrow> (case rec of None \<Rightarrow> noData p | Some r \<Rightarrow> showRecord r p))"
    using assms by (auto simp: main_def tryLoad_def Let_def)
  then show ?thesis
    by (simp add: Let_def split: sum.splits option.splits)
qed

text \<open>
  The third resource is missing (404) after the run log of scenario A has been shown: the
  log stays, the status text is the error, no list is rendered.
\<close>

theorem fetch_error_is_caught_witness:
  "main (serve (ok_json sample_log_body) (ok_json sample_items_body) not_found) sample_parse blank_page
     = onError (Error (str ''HTTP 404 ../standards_nftc_test.json'')) (showRecord sample_record blank_page)
   \<and> indicator (runPill (main (serve (ok_json sample_log_body) (ok_json sample_items_body) not_found) sample_parse blank_page))
     = [str ''bad'']
   \<and> textContent (statusText (main (serve (ok_json sample_log_body) (ok_json sample_items_body) not_found) sample_parse blank_page))
     = str ''Error: HTTP 404 ../standards_nftc_test.json''
   \<and> logHtml (main (serve (ok_json sample_log_body) (ok_json sample_items_body) not_found) sample_parse blank_page)
     = renderLog sample_record
   \<and> nfpcList (main (serve (ok_json sample_log_body) (ok_json sample_items_body) not_found) sample_parse blank_page) = []
   \<and> nftcList (main (serve (ok_json sample_log_body) (ok_json sample_items_body) not_found) sample_parse blank_page) = []"
proof -
  let ?fetch = "serve (ok_json sample_log_body) (ok_json sample_items_body) not_found"
  let ?data = "PObj \<lparr>d_records = Val [Val sample_record], d_items = Undefined\<rparr>"
  let ?err = "Error (str ''HTTP 404 ../standards_nftc_test.json'')"
  have hyp: "fetchJson ?fetch sample_parse path_log = Inl ?err
     \<or> (fetchJson ?fetch sample_parse path_log = Inr ?data \<and> firstRecord ?data = Inr (Some sample_record)
        \<and> (fetchJson ?fetch sample_parse path_nfpc = Inl ?err
           \<or> (fetchJson ?fetch sample_parse path_nfpc = Inr (PObj \<lparr>d_records = Undefined, d_items = Val [sample_item]\<rparr>)
              \<and> fetchJson ?fetch sample_parse path_nftc = Inl ?err)))"
    by (simp add: fetch_samples firstRecord_samples)
  show ?thesis
    using fetch_error_is_caught [OF hyp, of blank_page]
    by (simp add: Let_def fetch_samples named_def str_def blank_page_def)
qed

subsection \<open>No records\<close>

text \<open>
  C4. When the run log is fetched and its \<open>records\<close> is missing, \<open>null\<close> or empty, and both
  inventories are fetched, the script ends with the run indicator in the state \<open>warn\<close> (not
  \<open>bad\<close>) labelled "no data" (not the failure label), the explanatory message as status
  text, both inventory lists rendered from the fetched items, and nothing logged as an
  error.
\<close>

theorem no_records_state:
  assumes "fetchJson fetch parse path_log = Inr (PObj d)"
    and "d_records d = Undefined \<or> d_records d = Null \<or> d_records d = Val []"
    and "fetchJson fetch parse path_nfpc = Inr (PObj a)"
    and "fetchJson fetch parse path_nftc = Inr (PObj b)"
  shows "let q = main fetch parse p
         in q = (noData p)\<lparr>nfpcList := renderList (d_items a), nftcList := renderList (d_items b)\<rparr>
          \<and> indicator (runPill q) = [str ''warn''] \<and> indicator (runPill q) \<noteq> [str ''bad'']
          \<and> textContent (runPill q) = ko_no_data \<and> textContent (runPill q) \<noteq> ko_load_failed
          \<and> textContent (statusText q) = msg_no_records
          \<and> nfpcList q = renderList (d_items a) \<and> nftcList q = renderList (d_items b)
          \<and> console q = console p"
proof -
  have "firstRecord (PObj d) = Inr None"
    using assms(2) by (auto simp: firstRecord_def)
  then have "main fetch parse p = (noData p)\<lparr>nfpcList := renderList (d_items a), nftcList := renderList (d_items b)\<rparr>"
    using assms by (simp add: main_def tryLoad_def Let_def itemsOf_def)
  then show ?thesis
    by (simp add: Let_def) (simp add: str_def ko_defs)
qed

text \<open>
  A run log with an empty \<open>records\<close>, an inventory of one item and an empty inventory.
\<close>

theorem no_records_state_witness:
  \<open>indicator (runPill (main (serve (ok_json (str ''{"records":[]}'')) (ok_json sample_items_body) (ok_json (str ''{"items":[]}''))) sample_parse blank_page))
     = [str ''warn'']
   \<and> textContent (runPill (main (serve (ok_json (str ''{"records":[]}'')) (ok_json sample_items_body) (ok_json (str ''{"items":[]}''))) sample_parse blank_page))
     = ko_no_data
   \<and> nfpcList (main (serve (ok_json (str ''{"records":[]}'')) (ok_json sample_items_body) (ok_json (str ''{"items":[]}''))) sample_parse blank_page)
     = renderList (Val [sample_item])
   \<and> nftcList (main (serve (ok_json (str ''{"records":[]}'')) (ok_json sample_items_body) (ok_json (str ''{"items":[]}''))) sample_parse blank_page)
     = str ''<div class="small">'' @ ko_no_items @ str ''</div>''
   \<and> console (main (serve (ok_json (str ''{"records":[]}'')) (ok_json sample_items_body) (ok_json (str ''{"items":[]}''))) sample_parse blank_page)
     = []\<close>
proof -
  let ?fetch = \<open>serve (ok_json (str ''{"records":[]}'')) (ok_json sample_items_body) (ok_json (str ''{"items":[]}''))\<close>
  have 1: "fetchJson ?fetch sample_parse path_log = Inr (PObj \<lparr>d_records = Val [], d_items = Undefined\<rparr>)"
    by (rule fetch_samples)
  have 2: "d_records \<lparr>d_records = Val [], d_items = Undefined\<rparr> = Undefined
         \<or> d_records \<lparr>d_records = Val [], d_items = Undefined\<rparr> = Null
         \<or> d_records \<lparr>d_records = Val [], d_items = Undefined\<rparr> = Val ([] :: runRecord nullable list)"
    by simp
  have 3: "fetchJson ?fetch sample_parse path_nfpc = Inr (PObj \<lparr>d_records = Undefined, d_items = Val [sample_item]\<rparr>)"
    by (rule fetch_samples)
  have 4: "fetchJson ?fetch sample_parse path_nftc = Inr (PObj \<lparr>d_records = Undefined, d_items = Val []\<rparr>)"
    by (rule fetch_samples)
  show ?thesis
    using no_records_state [OF 1 2 3 4, of blank_page]
    by (simp add: Let_def blank_page_def renderList_def or_arr_def)
qed

subsection \<open>The three indicators\<close>

text \<open>
  C7. When the run log yields a record, the script ends (whatever happens to the
  inventories) with three indicators that each depend on one input only: the mode
  indicator shows \<open>MODE: MOCK\<close> in the state \<open>warn\<close> when \<open>meta\<close> is an object whose \<open>mock\<close>
  is \<open>true\<close> and \<open>MODE: LIVE\<close> in the state \<open>ok\<close> otherwise; the changes indicator shows
  the number of changes, in the state \<open>ok\<close> when it is zero and \<open>warn\<close> otherwise; the errors
  indicator shows the number of errors, in the state \<open>ok\<close> when it is zero and \<open>bad\<close>
  otherwise.
\<close>

theorem indicators_from_record:
  assumes "fetchJson fetch parse path_log = Inr data" and "firstRecord data = Inr (Some rec)"
  shows "let q = main fetch parse p;
             c = length (or_arr (rec_changes rec) []);
             e = length (or_arr (rec_errors rec) [])
         in (isMock rec \<longleftrightarrow> (\<exists>m. rec_meta rec = Val m \<and> mock m = Val True))
          \<and> indicator (modePill q) = [if isMock rec then str ''warn'' else str ''ok'']
          \<and> textContent (modePill q) = (if isMock rec then str ''MODE: MOCK'' else str ''MODE: LIVE'')
          \<and> indicator (changesPill q) = [if c = 0 then str ''ok'' else str ''warn'']
          \<and> textContent (changesPill q) = str ''CHANGES: '' @ show_nat c
          \<and> indicator (errorsPill q) = [if e = 0 then str ''ok'' else str ''bad'']
          \<and> textContent (errorsPill q) = str ''ERRORS: '' @ show_nat e"
  using isMock_iff [of rec] by (simp add: Let_def main_keeps_pills [OF assms])

text \<open>
  The record of scenario A (mock, no changes, no errors) and a live record with one change
  and one error; both inventories are missing.
\<close>

theorem indicators_from_record_witness:
  "indicator (modePill (main (serve (ok_json sample_log_body) not_found not_found) sample_parse blank_page)) = [str ''warn'']
   \<and> textContent (modePill (main (serve (ok_json sample_log_body) not_found not_found) sample_parse blank_page)) = str ''MODE: MOCK''
   \<and> indicator (changesPill (main (serve (ok_json sample_log_body) not_found not_found) sample_parse blank_page)) = [str ''ok'']
   \<and> textContent (changesPill (main (serve (ok_json sample_log_body) not_found not_found) sample_parse blank_page)) = str ''CHANGES: 0''
   \<and> indicator (errorsPill (main (serve (ok_json busy_log_body) not_found not_found) sample_parse blank_page)) = [str ''bad'']
   \<and> textContent (errorsPill (main (serve (ok_json busy_log_body) not_found not_found) sample_parse blank_page)) = str ''ERRORS: 1''
   \<and> indicator (changesPill (main (serve (ok_json busy_log_body) not_found not_found) sample_parse blank_page)) = [str ''warn'']
   \<and> indicator (modePill (main (serve (ok_json busy_log_body) not_found not_found) sample_parse blank_page)) = [str ''ok'']"
proof -
  have a: "fetchJson (serve (ok_json sample_log_body) not_found not_found) sample_parse path_log
      = Inr (PObj \<lparr>d_records = Val [Val sample_record], d_items = Undefined\<rparr>)"
    by (rule fetch_samples)
  have b: "fetchJson (serve (ok_json busy_log_body) not_found not_found) sample_parse path_log
      = Inr (PObj \<lparr>d_records = Val [Val busy_record], d_items = Undefined\<rparr>)"
    by (rule fetch_samples)
  have m: "isMock sample_record" "\<not> isMock busy_record"
    by (simp_all add: isMock_def sample_record_def busy_record_def)
  have l: "or_arr (rec_changes sample_record) [] = []" "or_arr (rec_errors sample_record) [] = []"
    "length (or_arr (rec_changes busy_record) []) = 1" "length (or_arr (rec_errors busy_record) []) = 1"
    by (simp_all add: or_arr_def sample_record_def busy_record_def)
  show ?thesis
    using indicators_from_record [OF a firstRecord_samples, of blank_page]
      indicators_from_record [OF b firstRecord_samples, of blank_page]
    by (simp add: Let_def m l show_nat.simps str_def)
qed

text \<open>
  C9. A record whose \<open>meta\<close> is missing or \<open>null\<close> is shown as live: the mode indicator ends
  as \<open>MODE: LIVE\<close> in the state \<open>ok\<close>, the same as for the record with \<open>meta.mock\<close> set to
  \<open>false\<close>; the whole page after the record branch, and the output of \<open>renderLog\<close>, are
  the same for the two records. The record is rendered, not rejected.
\<close>

theorem absent_meta_is_live:
  assumes "fetchJson fetch parse path_log = Inr data" and "firstRecord data = Inr (Some rec)"
    and "rec_meta rec = Undefined \<or> rec_meta rec = Null"
  shows "indicator (modePill (main fetch parse p)) = [str ''ok'']
       \<and> textContent (modePill (main fetch parse p)) = str ''MODE: LIVE''
       \<and> modePill (main fetch parse p) = modePill (showRecord (rec\<lparr>rec_meta := Val \<lparr>mock = Val False\<rparr>\<rparr>) p)
       \<and> showRecord rec p = showRecord (rec\<lparr>rec_meta := Val \<lparr>mock = Val False\<rparr>\<rparr>) p
       \<and> renderLog rec = renderLog (rec\<lparr>rec_meta := Val \<lparr>mock = Val False\<rparr>\<rparr>)
       \<and> logHtml (main fetch parse p) = renderLog rec"
proof -
  have m: "isMock rec = False" "isMock (rec\<lparr>rec_meta := Val \<lparr>mock = Val False\<rparr>\<rparr>) = False"
    using assms(3) by (auto simp: isMock_def)
  have r: "renderLog rec = renderLog (rec\<lparr>rec_meta := Val \<lparr>mock = Val False\<rparr>\<rparr>)"
    by (simp add: renderLog_def m)
  have s: "showRecord rec p = showRecord (rec\<lparr>rec_meta := Val \<lparr>mock = Val False\<rparr>\<rparr>) p"
    by (simp add: showRecord_def m r)
  show ?thesis
    using r s by (simp add: main_keeps_pills [OF assms(1,2)] m)
qed

text \<open>A record without \<open>meta\<close>, with the third resource missing.\<close>

theorem absent_meta_is_live_witness:
  "indicator (modePill (main (serve (ok_json busy_log_body) (ok_json sample_items_body) not_found) sample_parse blank_page)) = [str ''ok'']
   \<and> textContent (modePill (main (serve (ok_json busy_log_body) (ok_json sample_items_body) not_found) sample_parse blank_page)) = str ''MODE: LIVE''
   \<and> renderLog busy_record = renderLog (busy_record\<lparr>rec_meta := Val \<lparr>mock = Val False\<rparr>\<rparr>)"
proof -
  have b: "fetchJson (serve (ok_json busy_log_body) (ok_json sample_items_body) not_found) sample_parse path_log
      = Inr (PObj \<lparr>d_records = Val [Val busy_record], d_items = Undefined\<rparr>)"
    by (rule fetch_samples)
  have u: "rec_meta busy_record = Undefined \<or> rec_meta busy_record = Null"
    by (simp add: busy_record_def)
  show ?thesis
    using absent_meta_is_live [OF b firstRecord_samples u, of blank_page]
    by blast
qed

end
